theory Spec2Isabelle
  imports Complex_Main "HOL-Library.Multiset"
begin

section \<open>Numbers and rounding\<close>

text \<open>
  The generator in \<^verbatim>\<open>lib/mockData\<close> computes on JavaScript numbers. They are
  modelled as mathematical reals: \<^verbatim>\<open>Math.pow\<close>, \<^verbatim>\<open>Math.min\<close>, \<^verbatim>\<open>Math.abs\<close>,
  \<^verbatim>\<open>Math.sin\<close>, \<^verbatim>\<open>Math.exp\<close> and \<^verbatim>\<open>Math.sqrt\<close> are the functions of the same
  name on the reals; the rounding error of IEEE doubles, infinities and NaN are not
  part of the model. \<^verbatim>\<open>Math.round(x)\<close> rounds to the nearest integer, a tie going
  up: it is the floor of \<open>x + 1/2\<close>.

  A double computation can land on the other side of a rounding tie than the exact one
  (the code gets 28.7 where the exact score 28.75 rounds to 28.8). Statements about
  numbers that the code rounds are therefore made so that they do not hang on a tie:
  for the fixed sweep and the configured factors, where the exact values are well away
  from every tie, or with a margin of \<open>10\<^sup>-\<^sup>9\<close> around the rounding step.
\<close>

definition jsRound :: "real \<Rightarrow> real" where
  "jsRound x = of_int \<lfloor>x + 1 / 2\<rfloor>"

text \<open>\<^verbatim>\<open>Math.round(x * 10) / 10\<close>, \<^verbatim>\<open>Math.round(x * 100) / 100\<close> and
  \<^verbatim>\<open>Math.round(x * 1000) / 1000\<close>.\<close>

definition round1 :: "real \<Rightarrow> real" where
  "round1 x = jsRound (x * 10) / 10"

definition round2 :: "real \<Rightarrow> real" where
  "round2 x = jsRound (x * 100) / 100"

definition round3 :: "real \<Rightarrow> real" where
  "round3 x = jsRound (x * 1000) / 1000"

section \<open>The power-curve model\<close>

definition calculateExpectedPower :: "real \<Rightarrow> real" where
  "calculateExpectedPower windSpeed =
     (let cutInSpeed = 3;
          ratedSpeed = 12;
          cutOutSpeed = 25;
          ratedPower = 2000
      in if windSpeed < cutInSpeed then 0
         else if windSpeed \<ge> cutOutSpeed then 0
         else if windSpeed \<ge> ratedSpeed then ratedPower
         else let normalizedSpeed = (windSpeed - cutInSpeed) / (ratedSpeed - cutInSpeed)
              in ratedPower * normalizedSpeed ^ 3)"


section \<open>Records of the generator\<close>

text \<open>
  The interfaces of the source. A \<^verbatim>\<open>Date\<close> and the strings formatted from it
  (\<^verbatim>\<open>toISOString\<close>, \<^verbatim>\<open>toLocaleTimeString\<close>) are kept as the clock reading in
  milliseconds. The optional field \<^verbatim>\<open>actualPower?: number\<close> is an option, \<open>None\<close>
  being \<^verbatim>\<open>undefined\<close>. Field names that are taken in HOL carry a prefix:
  \<open>fid\<close>, \<open>fname\<close>, \<open>fvalue\<close>, \<open>funit\<close> for \<^verbatim>\<open>id\<close>, \<^verbatim>\<open>name\<close>, \<^verbatim>\<open>value\<close>,
  \<^verbatim>\<open>unit\<close> of a factor, \<open>rmin\<close>, \<open>rmax\<close> for \<^verbatim>\<open>min\<close>, \<^verbatim>\<open>max\<close> of a range.
\<close>

record PowerCurveDataPoint =
  windSpeed :: real
  actualPower :: "real option"
  minPower :: real
  maxPower :: real
  expectedPower :: real
  timestamp :: real

record NormalRange =
  rmin :: real
  rmax :: real

record HistoryPoint =
  htime :: real
  hvalue :: real

text \<open>The entries of the table \<^verbatim>\<open>factors\<close> in \<^verbatim>\<open>initializeCorrelationFactors\<close>
  have the first five fields only; a \<^verbatim>\<open>CorrelationFactor\<close> extends them.\<close>

record FactorBase =
  fid :: string
  fname :: string
  fvalue :: real
  funit :: string
  normalRange :: NormalRange

record CorrelationFactor = FactorBase +
  deviation :: real
  deviationScore :: real
  history :: "HistoryPoint list"

datatype Status = normal | warning | critical

record UnitInfo =
  uid :: int
  uname :: string
  currentYield :: real
  status :: Status

record BellCurveDataPoint =
  bvalue :: real
  density :: real

record DistributionData =
  reference :: "BellCurveDataPoint list"
  actual :: "BellCurveDataPoint list"
  referenceMean :: real
  referenceStdDev :: real
  actualMean :: real
  actualStdDev :: real

text \<open>
  \<^verbatim>\<open>Math.random()\<close> reads a source of draws from \<open>[0, 1)\<close>. The source is a
  sequence \<open>rnd\<close> and a position \<open>k\<close>: a call returns \<open>rnd k\<close> and moves the
  position to \<open>Suc k\<close>. A function that draws returns the new position with its result.
\<close>

type_synonym draws = "nat \<Rightarrow> real"

definition validDraws :: "draws \<Rightarrow> bool" where
  "validDraws rnd \<longleftrightarrow> (\<forall>n. 0 \<le> rnd n \<and> rnd n < 1)"

section \<open>The power-curve sample generator\<close>

text \<open>The three loops that fill \<^verbatim>\<open>windSpeeds\<close>, each from its running value
  \<open>ws\<close>: zone C up to 4 in steps of 0.5, zone B up to 11 in steps of 0.1, zone A
  up to 25 in steps of 0.5. On the reals the steps of 0.1 add up exactly; the halves of
  zones C and A are exact in doubles as well, while the code's running value in zone B
  drifts from the tenths by some \<open>10\<^sup>-\<^sup>1\<^sup>4\<close>. The drift can change the value of
  \<open>actualPower\<close> at a sample of zone B; it changes neither the number of samples nor,
  after their rounding, the other fields, nor whether \<open>actualPower\<close> is present.\<close>

function zoneC :: "real \<Rightarrow> real list" where
  "zoneC ws = (if ws \<le> 4 then ws # zoneC (ws + 0.5) else [])"
  by pat_completeness auto
termination
proof (relation "measure (\<lambda>ws. nat (\<lfloor>(4 - ws) * 2\<rfloor> + 1))")
  fix ws :: real
  assume "ws \<le> 4"
  then have "0 \<le> \<lfloor>(4 - ws) * 2\<rfloor>" by simp
  moreover have "\<lfloor>(4 - (ws + 0.5)) * 2\<rfloor> = \<lfloor>(4 - ws) * 2\<rfloor> - 1"
  proof -
    have "(4 - (ws + 0.5)) * 2 = (4 - ws) * 2 - 1" by simp
    then show ?thesis by (simp only: floor_diff_one)
  qed
  ultimately show "(ws + 0.5, ws) \<in> measure (\<lambda>ws. nat (\<lfloor>(4 - ws) * 2\<rfloor> + 1))"
    by simp
qed simp

function zoneB :: "real \<Rightarrow> real list" where
  "zoneB ws = (if ws \<le> 11 then ws # zoneB (ws + 0.1) else [])"
  by pat_completeness auto
termination
proof (relation "measure (\<lambda>ws. nat (\<lfloor>(11 - ws) * 10\<rfloor> + 1))")
  fix ws :: real
  assume "ws \<le> 11"
  then have "0 \<le> \<lfloor>(11 - ws) * 10\<rfloor>" by simp
  moreover have "\<lfloor>(11 - (ws + 0.1)) * 10\<rfloor> = \<lfloor>(11 - ws) * 10\<rfloor> - 1"
  proof -
    have "(11 - (ws + 0.1)) * 10 = (11 - ws) * 10 - 1" by simp
    then show ?thesis by (simp only: floor_diff_one)
  qed
  ultimately show "(ws + 0.1, ws) \<in> measure (\<lambda>ws. nat (\<lfloor>(11 - ws) * 10\<rfloor> + 1))"
    by simp
qed simp

function zoneA :: "real \<Rightarrow> real list" where
  "zoneA ws = (if ws \<le> 25 then ws # zoneA (ws + 0.5) else [])"
  by pat_completeness auto
termination
proof (relation "measure (\<lambda>ws. nat (\<lfloor>(25 - ws) * 2\<rfloor> + 1))")
  fix ws :: real
  assume "ws \<le> 25"
  then have "0 \<le> \<lfloor>(25 - ws) * 2\<rfloor>" by simp
  moreover have "\<lfloor>(25 - (ws + 0.5)) * 2\<rfloor> = \<lfloor>(25 - ws) * 2\<rfloor> - 1"
  proof -
    have "(25 - (ws + 0.5)) * 2 = (25 - ws) * 2 - 1" by simp
    then show ?thesis by (simp only: floor_diff_one)
  qed
  ultimately show "(ws + 0.5, ws) \<in> measure (\<lambda>ws. nat (\<lfloor>(25 - ws) * 2\<rfloor> + 1))"
    by simp
qed simp

declare zoneC.simps [simp del] zoneB.simps [simp del] zoneA.simps [simp del]

definition windSpeeds :: "real list" where
  "windSpeeds = zoneC 0 @ zoneB 4.1 @ zoneA 11.5"

text \<open>The search through \<^verbatim>\<open>spikePositions\<close> of the critical unit: the first position
  closer than 1.2 to the wind speed sets \<^verbatim>\<open>isSpike\<close> and \<^verbatim>\<open>spikeStrength\<close> and
  leaves the loop; without one they stay \<^verbatim>\<open>false\<close> and 0.\<close>

fun findSpike :: "real \<Rightarrow> real list \<Rightarrow> bool \<times> real" where
  "findSpike ws [] = (False, 0)"
| "findSpike ws (spikePos # rest) =
     (let distance = \<bar>ws - spikePos\<bar>
      in if distance < 1.2
         then (let normalizedDist = distance / 1.2
               in (True, exp (- 8 * normalizedDist * normalizedDist)))
         else findSpike ws rest)"

text \<open>The assignment of \<^verbatim>\<open>actualPower\<close> in the body of \<^verbatim>\<open>windSpeeds.forEach\<close>.
  Every path through the guarded block calls \<^verbatim>\<open>Math.random()\<close> exactly once.
  The locals \<^verbatim>\<open>windSpeed\<close>, \<^verbatim>\<open>expectedPower\<close>, \<^verbatim>\<open>minPower\<close> and \<^verbatim>\<open>maxPower\<close>
  of the body come in as \<open>ws\<close>, \<open>expected\<close>, \<open>minP\<close> and \<open>maxP\<close>, the long names
  being those of the record fields.\<close>

definition computeActualPower ::
  "int \<Rightarrow> bool \<Rightarrow> real \<Rightarrow> real \<Rightarrow> real \<Rightarrow> real \<Rightarrow> draws \<Rightarrow> nat \<Rightarrow> real option \<times> nat" where
  "computeActualPower unitId isCriticalUnit ws expected minP maxP rnd k =
     (if ws \<ge> 3 \<and> ws \<le> 25 then
        (let isWarningUnit = (unitId = 4) in
         if \<not> isCriticalUnit then
           (if ws > 11 then
              (let actualPower = expected * (0.98 + rnd k * 0.02);
                   actualPower = min actualPower (expected * 1.0)
               in (Some actualPower, Suc k))
            else if ws \<ge> 4 \<and> ws \<le> 11 then
              (if isWarningUnit then
                 (let rampProgress = (ws - 4) / 7;
                      dipCycle = sin (rampProgress * pi);
                      baseEfficiency = 0.75 + (0.20 * (1 - dipCycle));
                      randomVariation = rnd k * 0.03;
                      actualPower = expected * (baseEfficiency + randomVariation);
                      actualPower = min actualPower (maxP * 0.98);
                      actualPower = (if dipCycle > 0.5 then min actualPower (minP * 0.88)
                                     else actualPower);
                      actualPower =
                        (if rampProgress > 0.7
                         then (let recoveryFactor = (rampProgress - 0.7) / 0.3
                               in max actualPower (expected * (0.80 + recoveryFactor * 0.15)))
                         else actualPower)
                  in (Some actualPower, Suc k))
               else
                 (let rampProgress = (ws - 4) / 7;
                      dipCycle = sin (rampProgress * pi);
                      baseEfficiency = 0.88 + (0.07 * (1 - dipCycle));
                      randomVariation = rnd k * 0.03;
                      actualPower = expected * (baseEfficiency + randomVariation);
                      actualPower = min actualPower (maxP * 0.98);
                      actualPower = (if dipCycle > 0.5 then min actualPower (minP * 1.02)
                                     else actualPower)
                  in (Some actualPower, Suc k)))
            else (Some (expected * (0.85 + rnd k * 0.10)), Suc k))
         else
           (let baselineLow = minP * 0.45;
                spikePositions = [6.5, 10, 13.5, 17, 20.5];
                (isSpike, spikeStrength) = findSpike ws spikePositions
            in if isSpike then
                 (let maxSpikeHeight = minP * (0.7 + rnd k * 0.15)
                  in (Some (baselineLow + (maxSpikeHeight - baselineLow) * spikeStrength), Suc k))
               else (Some (baselineLow * (0.85 + rnd k * 0.3)), Suc k)))
      else (None, k))"

text \<open>One round of \<^verbatim>\<open>windSpeeds.forEach\<close>: the sample pushed for the wind speed \<open>ws\<close>. The
  test \<^verbatim>\<open>actualPower ? ... : undefined\<close> is one of truthiness, so that it takes the
  second branch for \<^verbatim>\<open>undefined\<close> and for the number 0.\<close>

definition powerCurvePoint ::
  "int \<Rightarrow> bool \<Rightarrow> real \<Rightarrow> real \<Rightarrow> draws \<Rightarrow> nat \<Rightarrow> real \<Rightarrow> PowerCurveDataPoint \<times> nat" where
  "powerCurvePoint unitId isCriticalUnit numPoints now rnd k ws =
     (let expectedPower = calculateExpectedPower ws;
          timestamp = now - (numPoints - (ws * 4)) * 5 * 60 * 1000;
          minPower = expectedPower * 0.85;
          maxPower = expectedPower * 1.05;
          (actualPower, k') =
             computeActualPower unitId isCriticalUnit ws expectedPower minPower maxPower rnd k
      in (\<lparr>windSpeed = round2 ws,
           actualPower = (case actualPower of
                            None \<Rightarrow> None
                          | Some a \<Rightarrow> if a \<noteq> 0 then Some (round1 a) else None),
           minPower = round1 minPower,
           maxPower = round1 maxPower,
           expectedPower = round1 expectedPower,
           timestamp = timestamp\<rparr>, k'))"

fun powerCurveLoop ::
  "int \<Rightarrow> bool \<Rightarrow> real \<Rightarrow> real \<Rightarrow> draws \<Rightarrow> nat \<Rightarrow> real list \<Rightarrow> PowerCurveDataPoint list" where
  "powerCurveLoop unitId isCriticalUnit numPoints now rnd k [] = []"
| "powerCurveLoop unitId isCriticalUnit numPoints now rnd k (ws # rest) =
     (let (point, k') = powerCurvePoint unitId isCriticalUnit numPoints now rnd k ws
      in point # powerCurveLoop unitId isCriticalUnit numPoints now rnd k' rest)"

text \<open>\<^verbatim>\<open>generatePowerCurveData(unitId, numPoints)\<close>, run at clock reading \<open>now\<close> on
  the draws of \<open>rnd\<close> from position \<open>k\<close> on.\<close>

definition generatePowerCurveData ::
  "int \<Rightarrow> real \<Rightarrow> real \<Rightarrow> draws \<Rightarrow> nat \<Rightarrow> PowerCurveDataPoint list" where
  "generatePowerCurveData unitId numPoints now rnd k =
     (let isCriticalUnit = (unitId = 6)
      in powerCurveLoop unitId isCriticalUnit numPoints now rnd k windSpeeds)"

section \<open>The unit registry\<close>

definition generateUnitsInfo :: "UnitInfo list" where
  "generateUnitsInfo =
     [\<lparr>uid = 1, uname = ''Unit 1'', currentYield = 97.2, status = normal\<rparr>,
      \<lparr>uid = 2, uname = ''Unit 2'', currentYield = 98.5, status = normal\<rparr>,
      \<lparr>uid = 3, uname = ''Unit 3'', currentYield = 95.8, status = normal\<rparr>,
      \<lparr>uid = 4, uname = ''Unit 4'', currentYield = 91.3, status = warning\<rparr>,
      \<lparr>uid = 5, uname = ''Unit 5'', currentYield = 96.7, status = normal\<rparr>,
      \<lparr>uid = 6, uname = ''Unit 6'', currentYield = 80.0, status = critical\<rparr>]"

section \<open>The time-series factor simulator\<close>

text \<open>The value drawn for one history point in \<^verbatim>\<open>generateInitialHistory\<close>. For the
  critical unit \<^verbatim>\<open>isAnomaly\<close> takes a draw first, whatever the factor is.\<close>

definition initialHistoryValue :: "string \<Rightarrow> bool \<Rightarrow> draws \<Rightarrow> nat \<Rightarrow> real \<times> nat" where
  "initialHistoryValue factorId isCritical rnd k =
     (if isCritical then
        (let isAnomaly = (rnd k > 0.7) in
         if factorId = ''pitch'' then
           ((if isAnomaly then 20 + rnd (Suc k) * 8 else 12 + rnd (Suc k) * 8), Suc (Suc k))
         else if factorId = ''rotor'' then
           ((if isAnomaly then 6 + rnd (Suc k) * 3 else 11 + rnd (Suc k) * 4), Suc (Suc k))
         else if factorId = ''generator'' then
           (85 + rnd (Suc k) * 10, Suc (Suc k))
         else if factorId = ''windSpeed'' then
           ((if isAnomaly then 5 + rnd (Suc k) * 2 else 6 + rnd (Suc k) * 3), Suc (Suc k))
         else (0, Suc k))
      else
        (if factorId = ''pitch'' then (2 + rnd k * 3, Suc k)
         else if factorId = ''rotor'' then (14 + rnd k * 4, Suc k)
         else if factorId = ''generator'' then (68 + rnd k * 6, Suc k)
         else if factorId = ''windSpeed'' then (9 + rnd k * 4, Suc k)
         else (0, k)))"

text \<open>The loop of \<^verbatim>\<open>generateInitialHistory\<close> over the indices \<open>i\<close> still to do.\<close>

fun initialHistoryLoop ::
  "string \<Rightarrow> bool \<Rightarrow> nat \<Rightarrow> real \<Rightarrow> draws \<Rightarrow> nat \<Rightarrow> nat list \<Rightarrow> HistoryPoint list \<times> nat" where
  "initialHistoryLoop factorId isCritical numPoints now rnd k [] = ([], k)"
| "initialHistoryLoop factorId isCritical numPoints now rnd k (i # rest) =
     (let timestamp = now - (real numPoints - real i) * 5000;
          (v, k') = initialHistoryValue factorId isCritical rnd k;
          (points, k'') = initialHistoryLoop factorId isCritical numPoints now rnd k' rest
      in (\<lparr>htime = timestamp, hvalue = round1 v\<rparr> # points, k''))"

definition generateInitialHistory ::
  "string \<Rightarrow> bool \<Rightarrow> nat \<Rightarrow> real \<Rightarrow> draws \<Rightarrow> nat \<Rightarrow> HistoryPoint list \<times> nat" where
  "generateInitialHistory factorId isCritical numPoints now rnd k =
     initialHistoryLoop factorId isCritical numPoints now rnd k [0..<numPoints]"

text \<open>The signed distance of a value outside a range, as both
  \<^verbatim>\<open>calculateInitialDeviation\<close> and \<^verbatim>\<open>generateNextDataPoint\<close> compute it, and the
  score \<^verbatim>\<open>Math.min(100, (Math.abs(deviation) / rangeWidth) * 100)\<close>. The source divides
  without a test: for a range of width 0 it yields NaN (deviation 0) or 100 (infinity
  cut by \<^verbatim>\<open>Math.min\<close>), where the quotient of HOL is 0. The model is the code's
  only for \<open>rmin < rmax\<close>, and every statement about a score has that hypothesis or
  is about the configured ranges. The score is exact here and carries the rounding of
  three double operations in the code.\<close>

definition rangeDeviation :: "real \<Rightarrow> NormalRange \<Rightarrow> real" where
  "rangeDeviation v nr =
     (if v < rmin nr then rmin nr - v
      else if v > rmax nr then v - rmax nr
      else 0)"

definition rangeDeviationScore :: "real \<Rightarrow> NormalRange \<Rightarrow> real" where
  "rangeDeviationScore dev nr =
     (let rangeWidth = rmax nr - rmin nr
      in min 100 ((\<bar>dev\<bar> / rangeWidth) * 100))"

definition calculateInitialDeviation :: "real \<Rightarrow> NormalRange \<Rightarrow> real \<times> real" where
  "calculateInitialDeviation v nr =
     (let dev = rangeDeviation v nr;
          score = rangeDeviationScore dev nr
      in (round1 dev, round1 score))"

text \<open>The table \<^verbatim>\<open>factors\<close>. The degree sign of the units is written \<open>deg\<close>.\<close>

definition factorTable :: "bool \<Rightarrow> FactorBase list" where
  "factorTable isCritical =
     [\<lparr>fid = ''pitch'', fname = ''Pitch Angle'', fvalue = (if isCritical then 18 else 3),
        funit = ''deg'', normalRange = \<lparr>rmin = 0, rmax = 5\<rparr>\<rparr>,
      \<lparr>fid = ''rotor'', fname = ''Rotor Speed'', fvalue = (if isCritical then 9 else 16),
        funit = ''RPM'', normalRange = \<lparr>rmin = 14, rmax = 18\<rparr>\<rparr>,
      \<lparr>fid = ''generator'', fname = ''Generator Temp'', fvalue = (if isCritical then 87 else 72),
        funit = ''degC'', normalRange = \<lparr>rmin = 65, rmax = 75\<rparr>\<rparr>,
      \<lparr>fid = ''windSpeed'', fname = ''Wind Speed'', fvalue = (if isCritical then 6 else 10),
        funit = ''m/s'', normalRange = \<lparr>rmin = 8, rmax = 14\<rparr>\<rparr>]"

text \<open>\<^verbatim>\<open>factors.map(...)\<close> of \<^verbatim>\<open>initializeCorrelationFactors\<close>, one table entry after
  the other, each with its history of 30 points.\<close>

fun initializeLoop ::
  "bool \<Rightarrow> real \<Rightarrow> draws \<Rightarrow> nat \<Rightarrow> FactorBase list \<Rightarrow> CorrelationFactor list \<times> nat" where
  "initializeLoop isCritical now rnd k [] = ([], k)"
| "initializeLoop isCritical now rnd k (factor # rest) =
     (let (dev, score) = calculateInitialDeviation (fvalue factor) (normalRange factor);
          (hist, k') = generateInitialHistory (fid factor) isCritical 30 now rnd k;
          (factors, k'') = initializeLoop isCritical now rnd k' rest
      in (\<lparr>fid = fid factor, fname = fname factor, fvalue = fvalue factor,
            funit = funit factor, normalRange = normalRange factor,
            deviation = dev, deviationScore = score, history = hist\<rparr> # factors, k''))"

definition initializeCorrelationFactors ::
  "int \<Rightarrow> real \<Rightarrow> draws \<Rightarrow> nat \<Rightarrow> CorrelationFactor list \<times> nat" where
  "initializeCorrelationFactors unitId now rnd k =
     (let isCritical = (unitId = 6)
      in initializeLoop isCritical now rnd k (factorTable isCritical))"

text \<open>The value \<^verbatim>\<open>newValue\<close> drawn for a factor in \<^verbatim>\<open>generateNextDataPoint\<close>; a
  factor of another id keeps its value.\<close>

definition nextValue :: "bool \<Rightarrow> CorrelationFactor \<Rightarrow> draws \<Rightarrow> nat \<Rightarrow> real \<times> nat" where
  "nextValue isCritical factor rnd k =
     (if isCritical then
        (let isAnomaly = (rnd k > 0.7) in
         if fid factor = ''pitch'' then
           ((if isAnomaly then 20 + rnd (Suc k) * 8 else 12 + rnd (Suc k) * 8), Suc (Suc k))
         else if fid factor = ''rotor'' then
           ((if isAnomaly then 6 + rnd (Suc k) * 3 else 11 + rnd (Suc k) * 4), Suc (Suc k))
         else if fid factor = ''generator'' then
           (85 + rnd (Suc k) * 10, Suc (Suc k))
         else if fid factor = ''windSpeed'' then
           ((if isAnomaly then 5 + rnd (Suc k) * 2 else 6 + rnd (Suc k) * 3), Suc (Suc k))
         else (fvalue factor, Suc k))
      else
        (if fid factor = ''pitch'' then (2 + rnd k * 3, Suc k)
         else if fid factor = ''rotor'' then (14 + rnd k * 4, Suc k)
         else if fid factor = ''generator'' then (68 + rnd k * 6, Suc k)
         else if fid factor = ''windSpeed'' then (9 + rnd k * 4, Suc k)
         else (fvalue factor, k)))"

text \<open>\<^verbatim>\<open>xs.slice(-20)\<close>: the last 20 elements, all of them when there are fewer.\<close>

definition sliceLast20 :: "'a list \<Rightarrow> 'a list" where
  "sliceLast20 xs = drop (length xs - 20) xs"

text \<open>The function mapped over \<^verbatim>\<open>currentFactors\<close>: the factor after one tick, \<open>stamp\<close>
  being the \<^verbatim>\<open>timestamp\<close> of the call.\<close>

definition nextFactor ::
  "bool \<Rightarrow> real \<Rightarrow> draws \<Rightarrow> nat \<Rightarrow> CorrelationFactor \<Rightarrow> CorrelationFactor \<times> nat" where
  "nextFactor isCritical stamp rnd k factor =
     (let (newValue, k') = nextValue isCritical factor rnd k;
          dev = rangeDeviation newValue (normalRange factor);
          score = rangeDeviationScore dev (normalRange factor);
          newHistory = sliceLast20 (history factor @ [\<lparr>htime = stamp, hvalue = newValue\<rparr>])
      in (factor\<lparr>fvalue := round1 newValue,
                 deviation := round1 dev,
                 deviationScore := round1 score,
                 history := newHistory\<rparr>, k'))"

fun nextLoop ::
  "bool \<Rightarrow> real \<Rightarrow> draws \<Rightarrow> nat \<Rightarrow> CorrelationFactor list \<Rightarrow> CorrelationFactor list \<times> nat" where
  "nextLoop isCritical stamp rnd k [] = ([], k)"
| "nextLoop isCritical stamp rnd k (factor # rest) =
     (let (factor', k') = nextFactor isCritical stamp rnd k factor;
          (factors, k'') = nextLoop isCritical stamp rnd k' rest
      in (factor' # factors, k''))"

text \<open>\<^verbatim>\<open>generateNextDataPoint(unitId, currentTime, currentFactors)\<close> at clock reading
  \<open>now\<close>; the source does not read \<^verbatim>\<open>currentTime\<close>.\<close>

definition generateNextDataPoint ::
  "int \<Rightarrow> real \<Rightarrow> real \<Rightarrow> draws \<Rightarrow> nat \<Rightarrow> CorrelationFactor list \<Rightarrow> CorrelationFactor list \<times> nat" where
  "generateNextDataPoint unitId currentTime now rnd k currentFactors =
     (let isCritical = (unitId = 6);
          timestamp = now
      in nextLoop isCritical timestamp rnd k currentFactors)"

text \<open>\<^verbatim>\<open>[...factors].sort((a, b) => b.deviationScore - a.deviationScore)\<close>. The sort of
  an array is stable, and on real scores the comparison is a consistent order, so the
  result is the stable arrangement by falling score: insertion sort on the negated score.\<close>

definition sortFactorsByDeviation :: "CorrelationFactor list \<Rightarrow> CorrelationFactor list" where
  "sortFactorsByDeviation factors = sort_key (\<lambda>f. - deviationScore f) factors"

text \<open>The update of the factors in the interval handler of the page:
  \<^verbatim>\<open>generateNextDataPoint\<close>, then \<^verbatim>\<open>sortFactorsByDeviation\<close>.\<close>

definition tickUpdate ::
  "int \<Rightarrow> real \<Rightarrow> real \<Rightarrow> draws \<Rightarrow> nat \<Rightarrow> CorrelationFactor list \<Rightarrow> CorrelationFactor list \<times> nat" where
  "tickUpdate selectedUnitId currentTime now rnd k prevFactors =
     (let (updatedFactors, k') = generateNextDataPoint selectedUnitId currentTime now rnd k prevFactors
      in (sortFactorsByDeviation updatedFactors, k'))"

section \<open>The distribution synthesizer\<close>

text \<open>The loop of \<^verbatim>\<open>generateBellCurveData\<close> runs \<open>i\<close> from 0 to \<open>numPoints\<close>
  inclusive.\<close>

definition generateBellCurveData ::
  "real \<Rightarrow> real \<Rightarrow> real \<Rightarrow> real \<Rightarrow> nat \<Rightarrow> BellCurveDataPoint list" where
  "generateBellCurveData mean stdDev rangeMin rangeMax numPoints =
     (let step = (rangeMax - rangeMin) / real numPoints
      in map (\<lambda>i. let x = rangeMin + real i * step;
                      exponent = - ((x - mean) ^ 2) / (2 * stdDev ^ 2);
                      coefficient = 1 / (stdDev * sqrt (2 * pi));
                      dens = coefficient * exp exponent
                  in \<lparr>bvalue = round2 x, density = round3 dens\<rparr>)
             [0..<Suc numPoints])"

text \<open>\<^verbatim>\<open>generateDistributionData(factor, unitId)\<close>. The means and deviations are exact
  here before they are rounded to two decimals; for the configured ranges they are well
  away from every tie of that rounding, for other ranges the code's doubles can round
  the other way.\<close>

definition generateDistributionData ::
  "CorrelationFactor \<Rightarrow> int \<Rightarrow> draws \<Rightarrow> nat \<Rightarrow> DistributionData \<times> nat" where
  "generateDistributionData factor unitId rnd k =
     (let isCritical = (unitId = 6);
          isWarning = (unitId = 4);
          refMean = (rmin (normalRange factor) + rmax (normalRange factor)) / 2;
          refStdDev = (rmax (normalRange factor) - rmin (normalRange factor)) / 6;
          (actMean, actStdDev, k') =
            (if isCritical then
               (let shiftAmount = (rmax (normalRange factor) - rmin (normalRange factor)) * 0.4
                in ((if fvalue factor < refMean then refMean - shiftAmount
                     else refMean + shiftAmount),
                    refStdDev * 2.0, k))
             else if isWarning then
               (let shiftAmount = (rmax (normalRange factor) - rmin (normalRange factor)) * 0.25
                in ((if fvalue factor < refMean then refMean - shiftAmount
                     else refMean + shiftAmount),
                    refStdDev * 1.4, k))
             else
               (refMean + (rnd k - 0.5) * refStdDev * 0.5, refStdDev * 1.1, Suc k));
          rangeWidth = rmax (normalRange factor) - rmin (normalRange factor);
          rangeMin = rmin (normalRange factor) - rangeWidth * 0.5;
          rangeMax = rmax (normalRange factor) + rangeWidth * 0.5;
          ref = generateBellCurveData refMean refStdDev rangeMin rangeMax 100;
          act = generateBellCurveData actMean actStdDev rangeMin rangeMax 100
      in (\<lparr>reference = ref,
           actual = act,
           referenceMean = round2 refMean,
           referenceStdDev = round2 refStdDev,
           actualMean = round2 actMean,
           actualStdDev = round2 actStdDev\<rparr>, k'))"

text \<open>A factor is configured when its id and normal range are those of an entry of the
  table \<^verbatim>\<open>factors\<close>; the table has the same ids and ranges for every unit.\<close>

definition configuredFactor :: "CorrelationFactor \<Rightarrow> bool" where
  "configuredFactor f \<longleftrightarrow>
     (fid f, normalRange f) \<in> set (map (\<lambda>b. (fid b, normalRange b)) (factorTable False))"

section \<open>Sources of draws and inputs for the examples\<close>

definition constantDraws :: "real \<Rightarrow> draws" where
  "constantDraws r = (\<lambda>n. r)"

text \<open>A well-typed factor record whose normal range is not the one of the table.\<close>

definition misconfiguredPitch :: CorrelationFactor where
  "misconfiguredPitch =
     \<lparr>fid = ''pitch'', fname = ''Pitch Angle'', fvalue = 3, funit = ''deg'',
      normalRange = \<lparr>rmin = 10, rmax = 20\<rparr>,
      deviation = 0, deviationScore = 0, history = []\<rparr>"

section \<open>Properties of the power-curve model\<close>

lemma calculateExpectedPower_ramp:
  "3 \<le> w \<Longrightarrow> w < 12 \<Longrightarrow> calculateExpectedPower w = 2000 * ((w - 3) / 9) ^ 3"
  by (simp add: calculateExpectedPower_def)

lemma calculateExpectedPower_nonneg: "0 \<le> calculateExpectedPower w"
  by (simp add: calculateExpectedPower_def Let_def)

lemma calculateExpectedPower_le_rated: "calculateExpectedPower w \<le> 2000"
proof (cases "3 \<le> w \<and> w < 12")
  case True
  then have "0 \<le> (w - 3) / 9" and "(w - 3) / 9 \<le> 1" by simp_all
  then have "((w - 3) / 9) ^ 3 \<le> 1" by (rule power_le_one)
  with True show ?thesis by (simp add: calculateExpectedPower_ramp)
next
  case False
  then show ?thesis by (auto simp: calculateExpectedPower_def)
qed

lemma calculateExpectedPower_mono_ramp:
  assumes "3 \<le> a" and "a \<le> b" and "b \<le> 12"
  shows "calculateExpectedPower a \<le> calculateExpectedPower b"
proof (cases "b < 12")
  case True
  from assms have "0 \<le> (a - 3) / 9" and "(a - 3) / 9 \<le> (b - 3) / 9" by simp_all
  then have "((a - 3) / 9) ^ 3 \<le> ((b - 3) / 9) ^ 3" by (rule power_mono [rotated])
  with assms True show ?thesis by (simp add: calculateExpectedPower_ramp)
next
  case False
  with assms have "b = 12" by simp
  then have "calculateExpectedPower b = 2000" by (simp add: calculateExpectedPower_def)
  then show ?thesis using calculateExpectedPower_le_rated [of a] by simp
qed

text \<open>
  C1. For every real wind speed \<open>w\<close> the power-curve model returns 0 below the cut-in
  speed 3, 0 from the cut-out speed 25 on, the rated power 2000 on \<open>[12, 25)\<close> and
  \<open>2000 * ((w - 3) / 9) ^ 3\<close> on \<open>[3, 12)\<close>; it is a total function of the wind
  speed, and it is monotonically non-decreasing on \<open>[3, 12]\<close>.
\<close>

theorem calculateExpectedPower_piecewise:
  "(w < 3 \<longrightarrow> calculateExpectedPower w = 0) \<and>
   (25 \<le> w \<longrightarrow> calculateExpectedPower w = 0) \<and>
   (12 \<le> w \<and> w < 25 \<longrightarrow> calculateExpectedPower w = 2000) \<and>
   (3 \<le> w \<and> w < 12 \<longrightarrow> calculateExpectedPower w = 2000 * ((w - 3) / 9) ^ 3) \<and>
   (3 \<le> a \<and> a \<le> b \<and> b \<le> 12 \<longrightarrow> calculateExpectedPower a \<le> calculateExpectedPower b)"
proof -
  have "3 \<le> a \<and> a \<le> b \<and> b \<le> 12 \<longrightarrow> calculateExpectedPower a \<le> calculateExpectedPower b"
    using calculateExpectedPower_mono_ramp by blast
  then show ?thesis by (simp add: calculateExpectedPower_def)
qed

theorem calculateExpectedPower_piecewise_witness:
  "calculateExpectedPower 2 = 0 \<and> calculateExpectedPower 30 = 0 \<and>
   calculateExpectedPower 15 = 2000 \<and> calculateExpectedPower 6 = 2000 * ((6 - 3) / 9) ^ 3 \<and>
   calculateExpectedPower 4 \<le> calculateExpectedPower 8"
  using calculateExpectedPower_piecewise [of 2 4 8]
    calculateExpectedPower_piecewise [of 30 4 8]
    calculateExpectedPower_piecewise [of 15 4 8]
    calculateExpectedPower_piecewise [of 6 4 8]
  by simp

text \<open>
  C8, as the code has it: the model gives 2000 at wind speed 12, 0 at wind speed 3, and
  at wind speed 7.5 it gives \<open>2000 * ((7.5 - 3) / 9) ^ 3\<close>, which is exactly 250.
\<close>

theorem calculateExpectedPower_concrete:
  "calculateExpectedPower 12 = 2000 \<and> calculateExpectedPower 3 = 0 \<and>
   calculateExpectedPower 7.5 = 2000 * ((7.5 - 3) / 9) ^ 3 \<and>
   calculateExpectedPower 7.5 = 250"
  by (simp add: calculateExpectedPower_def power3_eq_cube)

text \<open>
  The value 216.4 that the specification gives for wind speed 7.5 is not the value of
  the formula: the model is more than 33 away from it.
\<close>

theorem calculateExpectedPower_concrete_counterexample:
  "\<not> (calculateExpectedPower 12 = 2000 \<and> calculateExpectedPower 3 = 0 \<and>
      calculateExpectedPower 7.5 = 2000 * ((7.5 - 3) / 9) ^ 3 \<and>
      \<bar>calculateExpectedPower 7.5 - 216.4\<bar> \<le> 0.05)"
  by (simp add: calculateExpectedPower_def power3_eq_cube)

section \<open>Properties of the power-curve sample generator\<close>

lemma zoneC_0: "zoneC 0 = [0, 1/2, 1, 3/2, 2, 5/2, 3, 7/2, 4]"
  by (simp add: zoneC.simps)

lemma length_powerCurveLoop [simp]:
  "length (powerCurveLoop u c n now rnd k wss) = length wss"
  by (induction wss arbitrary: k) (simp_all add: split_def Let_def)

lemma powerCurvePoint_fields:
  "windSpeed (fst (powerCurvePoint u c n now rnd k ws)) = round2 ws"
  "minPower (fst (powerCurvePoint u c n now rnd k ws)) = round1 (calculateExpectedPower ws * 0.85)"
  "maxPower (fst (powerCurvePoint u c n now rnd k ws)) = round1 (calculateExpectedPower ws * 1.05)"
  "expectedPower (fst (powerCurvePoint u c n now rnd k ws)) = round1 (calculateExpectedPower ws)"
  by (simp_all add: powerCurvePoint_def Let_def split_def)

lemma powerCurveLoop_map:
  "map windSpeed (powerCurveLoop u c n now rnd k wss) = map round2 wss"
  "map minPower (powerCurveLoop u c n now rnd k wss) = map (\<lambda>ws. round1 (calculateExpectedPower ws * 0.85)) wss"
  "map maxPower (powerCurveLoop u c n now rnd k wss) = map (\<lambda>ws. round1 (calculateExpectedPower ws * 1.05)) wss"
  "map expectedPower (powerCurveLoop u c n now rnd k wss) = map (\<lambda>ws. round1 (calculateExpectedPower ws)) wss"
  by (induction wss arbitrary: k; simp add: powerCurvePoint_fields split_def Let_def)+

lemma powerCurveLoop_mem:
  "p \<in> set (powerCurveLoop u c n now rnd k wss) \<Longrightarrow>
   \<exists>ws\<in>set wss. \<exists>k'. p = fst (powerCurvePoint u c n now rnd k' ws)"
  by (induction wss arbitrary: k) (auto simp: split_def Let_def)

lemma jsRound_of_int [simp]: "jsRound (of_int m) = of_int m"
  by (simp add: jsRound_def) 

lemma jsRound_mono: "x \<le> y \<Longrightarrow> jsRound x \<le> jsRound y"
  by (simp add: jsRound_def floor_mono)

lemma round1_mono: "x \<le> y \<Longrightarrow> round1 x \<le> round1 y"
  by (simp add: round1_def jsRound_mono divide_right_mono)

lemma zoneC_grid: "x \<in> set (zoneC ws) \<Longrightarrow> \<exists>m::nat. x = ws + of_nat m / 2"
proof (induction ws rule: zoneC.induct)
  case (1 ws)
  show ?case
  proof (cases "ws \<le> 4")
    case True
    with "1.prems" have "x = ws \<or> x \<in> set (zoneC (ws + 0.5))"
      by (subst (asm) zoneC.simps) simp
    then show ?thesis
    proof
      assume "x = ws"
      then have "x = ws + of_nat 0 / 2" by simp
      then show ?thesis by blast
    next
      assume "x \<in> set (zoneC (ws + 0.5))"
      with "1.IH" True obtain m :: nat where "x = ws + 0.5 + of_nat m / 2" by blast
      then have "x = ws + of_nat (Suc m) / 2" by (simp add: field_simps)
      then show ?thesis by blast
    qed
  next
    case False
    with "1.prems" show ?thesis by (subst (asm) zoneC.simps) simp
  qed
qed

lemma round2_grid: "round2 (of_int m / 10) = of_int m / 10"
proof -
  have "jsRound (of_int m / 10 * 100) = jsRound (of_int (10 * m))" by simp
  also have "\<dots> = of_int (10 * m)" by (rule jsRound_of_int)
  finally show ?thesis by (simp add: round2_def)
qed

lemma zoneB_grid: "x \<in> set (zoneB ws) \<Longrightarrow> \<exists>m::nat. x = ws + of_nat m / 10"
proof (induction ws rule: zoneB.induct)
  case (1 ws)
  show ?case
  proof (cases "ws \<le> 11")
    case True
    with "1.prems" have "x = ws \<or> x \<in> set (zoneB (ws + 0.1))"
      by (subst (asm) zoneB.simps) simp
    then show ?thesis
    proof
      assume "x = ws"
      then have "x = ws + of_nat 0 / 10" by simp
      then show ?thesis by blast
    next
      assume "x \<in> set (zoneB (ws + 0.1))"
      with "1.IH" True obtain m :: nat where "x = ws + 0.1 + of_nat m / 10" by blast
      then have "x = ws + of_nat (Suc m) / 10" by (simp add: field_simps)
      then show ?thesis by blast
    qed
  next
    case False
    with "1.prems" show ?thesis by (subst (asm) zoneB.simps) simp
  qed
qed

lemma zoneA_grid: "x \<in> set (zoneA ws) \<Longrightarrow> \<exists>m::nat. x = ws + of_nat m / 2"
proof (induction ws rule: zoneA.induct)
  case (1 ws)
  show ?case
  proof (cases "ws \<le> 25")
    case True
    with "1.prems" have "x = ws \<or> x \<in> set (zoneA (ws + 0.5))"
      by (subst (asm) zoneA.simps) simp
    then show ?thesis
    proof
      assume "x = ws"
      then have "x = ws + of_nat 0 / 2" by simp
      then show ?thesis by blast
    next
      assume "x \<in> set (zoneA (ws + 0.5))"
      with "1.IH" True obtain m :: nat where "x = ws + 0.5 + of_nat m / 2" by blast
      then have "x = ws + of_nat (Suc m) / 2" by (simp add: field_simps)
      then show ?thesis by blast
    qed
  next
    case False
    with "1.prems" show ?thesis by (subst (asm) zoneA.simps) simp
  qed
qed

lemma windSpeeds_grid:
  assumes "ws \<in> set windSpeeds"
  shows "\<exists>m::int. ws = of_int m / 10"
proof -
  from assms consider "ws \<in> set (zoneC 0)" | "ws \<in> set (zoneB 4.1)" | "ws \<in> set (zoneA 11.5)"
    by (auto simp: windSpeeds_def)
  then show ?thesis
  proof cases
    case 1
    then obtain m :: nat where "ws = 0 + of_nat m / 2" using zoneC_grid by blast
    then have "ws = of_int (5 * int m) / 10" by simp
    then show ?thesis by blast
  next
    case 2
    then obtain m :: nat where "ws = 4.1 + of_nat m / 10" using zoneB_grid by blast
    then have "ws = of_int (41 + int m) / 10" by simp
    then show ?thesis by blast
  next
    case 3
    then obtain m :: nat where "ws = 11.5 + of_nat m / 2" using zoneA_grid by blast
    then have "ws = of_int (115 + 5 * int m) / 10" by simp
    then show ?thesis by blast
  qed
qed

lemma round2_windSpeeds: "ws \<in> set windSpeeds \<Longrightarrow> round2 ws = ws"
  using windSpeeds_grid round2_grid by metis

lemma length_generatePowerCurveData:
  "length (generatePowerCurveData unitId numPoints now rnd k) = length windSpeeds"
  by (simp add: generatePowerCurveData_def del: powerCurveLoop.simps)

lemma generatePowerCurveData_nth:
  assumes "i < length windSpeeds"
  shows "windSpeed (generatePowerCurveData unitId numPoints now rnd k ! i) = round2 (windSpeeds ! i)"
    and "minPower (generatePowerCurveData unitId numPoints now rnd k ! i) =
         round1 (calculateExpectedPower (windSpeeds ! i) * 0.85)"
    and "maxPower (generatePowerCurveData unitId numPoints now rnd k ! i) =
         round1 (calculateExpectedPower (windSpeeds ! i) * 1.05)"
    and "expectedPower (generatePowerCurveData unitId numPoints now rnd k ! i) =
         round1 (calculateExpectedPower (windSpeeds ! i))"
proof -
  let ?G = "generatePowerCurveData unitId numPoints now rnd k"
  have len: "i < length ?G" using assms by (simp only: length_generatePowerCurveData)
  have "windSpeed (?G ! i) = map windSpeed ?G ! i" using len by simp
  then show "windSpeed (?G ! i) = round2 (windSpeeds ! i)"
    using assms by (simp add: generatePowerCurveData_def powerCurveLoop_map)
  have "minPower (?G ! i) = map minPower ?G ! i" using len by simp
  then show "minPower (?G ! i) = round1 (calculateExpectedPower (windSpeeds ! i) * 0.85)"
    using assms by (simp add: generatePowerCurveData_def powerCurveLoop_map)
  have "maxPower (?G ! i) = map maxPower ?G ! i" using len by simp
  then show "maxPower (?G ! i) = round1 (calculateExpectedPower (windSpeeds ! i) * 1.05)"
    using assms by (simp add: generatePowerCurveData_def powerCurveLoop_map)
  have "expectedPower (?G ! i) = map expectedPower ?G ! i" using len by simp
  then show "expectedPower (?G ! i) = round1 (calculateExpectedPower (windSpeeds ! i))"
    using assms by (simp add: generatePowerCurveData_def powerCurveLoop_map)
qed

lemma windSpeeds_7: "7 < length windSpeeds \<and> windSpeeds ! 7 = 7 / 2"
  by (simp add: windSpeeds_def zoneC_0)

lemma powerCurvePoint_below:
  "ws < 3 \<Longrightarrow> snd (powerCurvePoint u c n now rnd k ws) = k"
  by (simp add: powerCurvePoint_def computeActualPower_def Let_def)

lemma powerCurveLoop_prefix:
  "\<forall>ws\<in>set pre. ws < 3 \<Longrightarrow>
   powerCurveLoop u c n now rnd k (pre @ rest) =
   powerCurveLoop u c n now rnd k pre @ powerCurveLoop u c n now rnd k rest"
  by (induction pre) (simp_all add: split_def Let_def powerCurvePoint_below)

lemma powerCurvePoint_cut_in:
  "windSpeed (fst (powerCurvePoint u c n now rnd k 3)) = 3 \<and>
   actualPower (fst (powerCurvePoint u c n now rnd k 3)) = None"
  by (simp add: powerCurvePoint_def computeActualPower_def calculateExpectedPower_def
      Let_def split_def round2_def jsRound_def)

text \<open>Where the expected power is positive, every branch of the guarded block yields a
  positive actual power, whatever the unit and the draw; where it is 0, they yield 0.\<close>

lemma findSpike_strength:
  "fst (findSpike ws ps) \<Longrightarrow> 0 < snd (findSpike ws ps) \<and> snd (findSpike ws ps) \<le> 1"
  by (induction ps) (auto simp: Let_def)

lemma efficiency_pos:
  fixes e r c q :: real
  assumes "0 < e" "0 \<le> r" "0 < c" "0 \<le> q"
  shows "0 < e * (c + r * q)"
proof -
  have "0 \<le> r * q" using assms by simp
  then have "0 < c + r * q" using assms(3) by linarith
  then show ?thesis using assms(1) by simp
qed

lemma dip_efficiency_pos:
  fixes e r c b s q :: real
  assumes "0 < e" "0 \<le> r" "0 < c" "0 \<le> b" "s \<le> 1" "0 \<le> q"
  shows "0 < e * (c + (b * (1 - s)) + r * q)"
proof -
  have "0 \<le> b * (1 - s)" using assms by simp
  moreover have "0 \<le> r * q" using assms by simp
  ultimately have "0 < c + (b * (1 - s)) + r * q" using assms(3) by linarith
  then show ?thesis using assms(1) by simp
qed

lemma spike_pos:
  fixes m r s lo hi q :: real
  assumes "0 < m" "0 \<le> r" "0 < s" "0 < lo" "lo \<le> hi" "0 \<le> q"
  shows "0 < m * lo + (m * (hi + r * q) - m * lo) * s"
proof -
  have "0 \<le> r * q" using assms by simp
  then have "lo \<le> hi + r * q" using assms(5) by linarith
  then have "m * lo \<le> m * (hi + r * q)" using assms(1) by simp
  then have "0 \<le> (m * (hi + r * q) - m * lo) * s" using assms(3) by simp
  moreover have "0 < m * lo" using assms by simp
  ultimately show ?thesis by linarith
qed

lemma computeActualPower_critical_positive:
  assumes r: "0 \<le> rnd k" and ws: "3 \<le> ws" "ws \<le> 25" and e: "0 < e"
  shows "\<exists>a. fst (computeActualPower u True ws e (e * 0.85) (e * 1.05) rnd k) = Some a \<and> 0 < a"
proof -
  obtain b s where fs: "findSpike ws [6.5, 10, 13.5, 17, 20.5] = (b, s)"
    by (cases "findSpike ws [6.5, 10, 13.5, 17, 20.5]")
  have m: "0 < e * 0.85" using e by simp
  show ?thesis
  proof (cases b)
    case True
    with fs findSpike_strength [of ws "[6.5, 10, 13.5, 17, 20.5]"] have "0 < s" by simp
    then have "0 < e * 0.85 * 0.45 + (e * 0.85 * (0.7 + rnd k * 0.15) - e * 0.85 * 0.45) * s"
      by (intro spike_pos m r) simp_all
    moreover have "fst (computeActualPower u True ws e (e * 0.85) (e * 1.05) rnd k) =
       Some (e * 0.85 * 0.45 + (e * 0.85 * (0.7 + rnd k * 0.15) - e * 0.85 * 0.45) * s)"
      using True ws unfolding computeActualPower_def Let_def fs by simp
    ultimately show ?thesis by blast
  next
    case False
    have "0 < e * 0.85 * 0.45" using e by simp
    then have "0 < e * 0.85 * 0.45 * (0.85 + rnd k * 0.3)"
      by (intro efficiency_pos r) simp_all
    moreover have "fst (computeActualPower u True ws e (e * 0.85) (e * 1.05) rnd k) =
       Some (e * 0.85 * 0.45 * (0.85 + rnd k * 0.3))"
      using False ws unfolding computeActualPower_def Let_def fs by simp
    ultimately show ?thesis by blast
  qed
qed


lemma computeActualPower_nominal_positive:
  assumes r: "0 \<le> rnd k" and ws: "3 \<le> ws" "ws \<le> 25" and e: "0 < e"
  shows "\<exists>a. fst (computeActualPower u False ws e (e * 0.85) (e * 1.05) rnd k) = Some a \<and> 0 < a"
proof -
  define d where "d = sin ((ws - 4) / 7 * pi)"
  have d: "d \<le> 1" unfolding d_def by (rule sin_le_one)
  have zoneA: "0 < e * (0.98 + rnd k * 0.02)"
    and zoneC: "0 < e * (0.85 + rnd k * 0.10)"
    by (intro efficiency_pos e r; simp)+
  have warn: "0 < e * (0.75 + (0.20 * (1 - d)) + rnd k * 0.03)"
    and norm: "0 < e * (0.88 + (0.07 * (1 - d)) + rnd k * 0.03)"
    by (intro dip_efficiency_pos e r d; simp)+
  have band: "0 < e * 1.05 * 0.98" "0 < e * 0.85 * 0.88" "0 < e * 0.85 * 1.02" "0 < e * 1.0"
    using e by simp_all
  show ?thesis
    unfolding computeActualPower_def Let_def d_def [symmetric]
    using ws zoneA zoneC warn norm band
    by (simp add: less_max_iff_disj del: mult_pos_pos)
qed


lemma computeActualPower_zero:
  assumes ws: "3 \<le> ws" "ws \<le> 25"
  shows "fst (computeActualPower u c ws 0 0 0 rnd k) = Some 0"
proof -
  obtain b s where fs: "findSpike ws [6.5, 10, 13.5, 17, 20.5] = (b, s)"
    by (cases "findSpike ws [6.5, 10, 13.5, 17, 20.5]")
  show ?thesis
    using ws unfolding computeActualPower_def Let_def fs by simp
qed

lemma computeActualPower_outside:
  "ws < 3 \<or> 25 < ws \<Longrightarrow> fst (computeActualPower u c ws e lo hi rnd k) = None"
  by (auto simp: computeActualPower_def)

lemma calculateExpectedPower_pos_iff: "0 < calculateExpectedPower ws \<longleftrightarrow> 3 < ws \<and> ws < 25"
  by (auto simp: calculateExpectedPower_def Let_def)

lemma powerCurvePoint_actualPower_present:
  assumes "validDraws rnd"
  shows "actualPower (fst (powerCurvePoint u c n now rnd k ws)) \<noteq> None \<longleftrightarrow> 3 < ws \<and> ws < 25"
proof (cases "3 < ws \<and> ws < 25")
  case True
  then have e: "0 < calculateExpectedPower ws" by (simp add: calculateExpectedPower_pos_iff)
  from assms have r: "0 \<le> rnd k" by (simp add: validDraws_def)
  from True have ws: "3 \<le> ws" "ws \<le> 25" by simp_all
  have "\<exists>a. fst (computeActualPower u c ws (calculateExpectedPower ws)
      (calculateExpectedPower ws * 0.85) (calculateExpectedPower ws * 1.05) rnd k) = Some a \<and> 0 < a"
    using computeActualPower_critical_positive [where rnd = rnd and k = k, OF r ws e]
      computeActualPower_nominal_positive [where rnd = rnd and k = k, OF r ws e]
    by (cases c) simp_all
  then show ?thesis using True by (auto simp: powerCurvePoint_def Let_def split_def)
next
  case False
  show ?thesis
  proof (cases "3 \<le> ws \<and> ws \<le> 25")
    case True
    with False have "calculateExpectedPower ws = 0"
      using calculateExpectedPower_pos_iff [of ws] calculateExpectedPower_nonneg [of ws] by linarith
    then show ?thesis using True False computeActualPower_zero [of ws u c rnd k]
      by (simp add: powerCurvePoint_def Let_def split_def)
  next
    case False
    then have "ws < 3 \<or> 25 < ws" by linarith
    then show ?thesis using computeActualPower_outside [of ws]
      by (auto simp: powerCurvePoint_def Let_def split_def)
  qed
qed

lemma generatePowerCurveData_actualPower_present:
  assumes "validDraws rnd"
    and "p \<in> set (generatePowerCurveData unitId numPoints now rnd k)"
  shows "actualPower p \<noteq> None \<longleftrightarrow> 3 < windSpeed p \<and> windSpeed p < 25"
proof -
  from assms(2) obtain ws k' where ws: "ws \<in> set windSpeeds"
    and p: "p = fst (powerCurvePoint unitId (unitId = 6) numPoints now rnd k' ws)"
    unfolding generatePowerCurveData_def Let_def using powerCurveLoop_mem by blast
  have w: "windSpeed p = ws" using ws p by (simp add: powerCurvePoint_fields round2_windSpeeds)
  show ?thesis unfolding w unfolding p by (rule powerCurvePoint_actualPower_present [OF assms(1)])
qed

text \<open>
  C4. The claim is that \<open>actualPower\<close> is present exactly for the samples with a wind
  speed in \<open>[3, 25)\<close>. The sweep has the wind speed 3 at index 6, and the guard
  \<^verbatim>\<open>windSpeed >= 3 && windSpeed <= 25\<close> lets it in; there the expected power is 0, so
  the computed actual power is the number 0, which the truthiness test of the push turns
  into \<^verbatim>\<open>undefined\<close>. For every unit, clock reading and source of draws the sample of
  wind speed 3 has no \<open>actualPower\<close>. At every other sample the claim holds
  (\<open>generatePowerCurveData_actualPower_present\<close>): \<open>actualPower\<close> is present exactly
  for the wind speeds strictly between 3 and 25.
\<close>

theorem generatePowerCurveData_cut_in_sample:
  "6 < length (generatePowerCurveData unitId numPoints now rnd k) \<and>
   windSpeed (generatePowerCurveData unitId numPoints now rnd k ! 6) = 3 \<and>
   actualPower (generatePowerCurveData unitId numPoints now rnd k ! 6) = None"
proof -
  let ?pre = "[0, 1/2, 1, 3/2, 2, 5/2] :: real list"
  let ?rest = "3 # ([7/2, 4] @ zoneB 4.1 @ zoneA 11.5)"
  let ?c = "unitId = 6"
  have ws: "windSpeeds = ?pre @ ?rest"
    by (simp add: windSpeeds_def zoneC_0)
  have "\<forall>ws\<in>set ?pre. ws < 3" by simp
  then have split: "powerCurveLoop unitId ?c numPoints now rnd k (?pre @ ?rest) =
      powerCurveLoop unitId ?c numPoints now rnd k ?pre @ powerCurveLoop unitId ?c numPoints now rnd k ?rest"
    by (rule powerCurveLoop_prefix)
  obtain R where rest: "powerCurveLoop unitId ?c numPoints now rnd k ?rest =
      fst (powerCurvePoint unitId ?c numPoints now rnd k 3) # R"
    by (simp add: split_def Let_def del: append.simps)
  have lenpre: "length (powerCurveLoop unitId ?c numPoints now rnd k ?pre) = 6"
    by (simp del: powerCurveLoop.simps)
  have gen: "generatePowerCurveData unitId numPoints now rnd k =
      powerCurveLoop unitId ?c numPoints now rnd k ?pre @
      fst (powerCurvePoint unitId ?c numPoints now rnd k 3) # R"
    unfolding generatePowerCurveData_def Let_def ws split rest ..
  have nth: "generatePowerCurveData unitId numPoints now rnd k ! 6 =
      fst (powerCurvePoint unitId ?c numPoints now rnd k 3)"
    unfolding gen using nth_append_length [of "powerCurveLoop unitId ?c numPoints now rnd k ?pre"]
    by (simp only: lenpre)
  have len: "6 < length (generatePowerCurveData unitId numPoints now rnd k)"
    unfolding gen by (simp add: lenpre del: powerCurveLoop.simps)
  show ?thesis
    unfolding nth using len powerCurvePoint_cut_in by simp
qed

text \<open>
  C7, as the code has it. Every sample of \<open>generatePowerCurveData\<close> has
  \<open>minPower \<le> maxPower\<close>, and its \<open>minPower\<close>, \<open>maxPower\<close> and \<open>expectedPower\<close> are
  the one-decimal roundings of 0.85 times, 1.05 times and once the unrounded value of the
  power-curve model at the sample's wind speed.
\<close>

theorem generatePowerCurveData_envelope:
  assumes "p \<in> set (generatePowerCurveData unitId numPoints now rnd k)"
  shows "minPower p \<le> maxPower p \<and>
         minPower p = round1 (0.85 * calculateExpectedPower (windSpeed p)) \<and>
         maxPower p = round1 (1.05 * calculateExpectedPower (windSpeed p)) \<and>
         expectedPower p = round1 (calculateExpectedPower (windSpeed p))"
proof -
  from assms obtain ws k' where ws: "ws \<in> set windSpeeds"
    and p: "p = fst (powerCurvePoint unitId (unitId = 6) numPoints now rnd k' ws)"
    unfolding generatePowerCurveData_def Let_def using powerCurveLoop_mem by blast
  have w: "windSpeed p = ws" using ws p by (simp add: powerCurvePoint_fields round2_windSpeeds)
  have "calculateExpectedPower ws * 0.85 \<le> calculateExpectedPower ws * 1.05"
    using calculateExpectedPower_nonneg [of ws] by simp
  then have "minPower p \<le> maxPower p"
    unfolding p powerCurvePoint_fields by (rule round1_mono)
  then show ?thesis unfolding w unfolding p powerCurvePoint_fields by (simp add: mult.commute)
qed

theorem generatePowerCurveData_envelope_witness:
  "generatePowerCurveData 1 200 0 (constantDraws (1/2)) 0 ! 7
     \<in> set (generatePowerCurveData 1 200 0 (constantDraws (1/2)) 0) \<and>
   minPower (generatePowerCurveData 1 200 0 (constantDraws (1/2)) 0 ! 7)
     \<le> maxPower (generatePowerCurveData 1 200 0 (constantDraws (1/2)) 0 ! 7) \<and>
   maxPower (generatePowerCurveData 1 200 0 (constantDraws (1/2)) 0 ! 7) =
     round1 (1.05 * calculateExpectedPower
       (windSpeed (generatePowerCurveData 1 200 0 (constantDraws (1/2)) 0 ! 7)))"
proof -
  let ?G = "generatePowerCurveData 1 200 0 (constantDraws (1/2)) 0"
  have "7 < length ?G"
    using windSpeeds_7 by (simp only: length_generatePowerCurveData)
  then have mem: "?G ! 7 \<in> set ?G" by (rule nth_mem)
  show ?thesis using mem generatePowerCurveData_envelope [OF mem] by simp
qed

text \<open>
  Read on the fields of a sample, the equations of the claim fail: the sample of wind
  speed 3.5 has \<open>expectedPower = 0.3\<close> and \<open>maxPower = 0.4\<close>, while 1.05 times its
  \<open>expectedPower\<close> rounds to 0.3.
\<close>

theorem generatePowerCurveData_envelope_counterexample:
  "7 < length (generatePowerCurveData 1 200 0 (constantDraws (1/2)) 0) \<and>
   windSpeed (generatePowerCurveData 1 200 0 (constantDraws (1/2)) 0 ! 7) = 3.5 \<and>
   expectedPower (generatePowerCurveData 1 200 0 (constantDraws (1/2)) 0 ! 7) = 0.3 \<and>
   maxPower (generatePowerCurveData 1 200 0 (constantDraws (1/2)) 0 ! 7) = 0.4 \<and>
   maxPower (generatePowerCurveData 1 200 0 (constantDraws (1/2)) 0 ! 7) \<noteq>
     round1 (1.05 * expectedPower (generatePowerCurveData 1 200 0 (constantDraws (1/2)) 0 ! 7))"
proof -
  have e: "calculateExpectedPower (7 / 2) = 2000 / 5832"
    by (simp add: calculateExpectedPower_def power3_eq_cube)
  have len: "7 < length windSpeeds" and w7: "windSpeeds ! 7 = 7 / 2"
    using windSpeeds_7 by simp_all
  show ?thesis
    unfolding generatePowerCurveData_nth [OF len] length_generatePowerCurveData w7 e
    using len by (simp add: round1_def round2_def jsRound_def)
qed

lemma powerCurveLoop_nth:
  "i < length wss \<Longrightarrow>
   \<exists>k'. powerCurveLoop u c n now rnd k wss ! i = fst (powerCurvePoint u c n now rnd k' (wss ! i))"
proof (induction wss arbitrary: k i)
  case Nil
  then show ?case by simp
next
  case (Cons ws wss)
  show ?case
  proof (cases i)
    case 0
    then show ?thesis by (auto simp: split_def Let_def)
  next
    case (Suc j)
    with Cons.prems have "j < length wss" by simp
    from Cons.IH [OF this] show ?thesis using Suc by (simp add: split_def Let_def)
  qed
qed

lemma generatePowerCurveData_nth_point:
  "i < length windSpeeds \<Longrightarrow>
   \<exists>k'. generatePowerCurveData unitId numPoints now rnd k ! i =
     fst (powerCurvePoint unitId (unitId = 6) numPoints now rnd k' (windSpeeds ! i))"
  unfolding generatePowerCurveData_def Let_def by (rule powerCurveLoop_nth)

lemma powerCurvePoint_timestamp:
  "timestamp (fst (powerCurvePoint u c n now rnd k ws)) = now - (n - (ws * 4)) * 5 * 60 * 1000"
  by (simp add: powerCurvePoint_def Let_def split_def)

lemma windSpeeds_0_8: "8 < length windSpeeds \<and> windSpeeds ! 0 = 0 \<and> windSpeeds ! 8 = 4"
  by (simp add: windSpeeds_def zoneC_0)

lemma generatePowerCurveData_first_timestamp:
  "timestamp (generatePowerCurveData unitId numPoints now rnd k ! 0) = now - numPoints * 300000"
proof -
  have "0 < length windSpeeds" using windSpeeds_0_8 by linarith
  from generatePowerCurveData_nth_point [OF this] obtain k' where
    "generatePowerCurveData unitId numPoints now rnd k ! 0 =
       fst (powerCurvePoint unitId (unitId = 6) numPoints now rnd k' (windSpeeds ! 0))" by blast
  then show ?thesis using windSpeeds_0_8 by (simp add: powerCurvePoint_timestamp)
qed

lemma nominal_ramp_start:
  "actualPower (fst (powerCurvePoint 1 False n now (constantDraws r) k 4)) =
     (let a = min (2000 / 729 * (95 / 100 + r * (3 / 100))) (2000 / 729 * (105 / 100) * (98 / 100))
      in if a \<noteq> 0 then Some (round1 a) else None)"
  by (simp add: powerCurvePoint_def computeActualPower_def calculateExpectedPower_def
      constantDraws_def Let_def power3_eq_cube)

lemma generatePowerCurveData_ramp_start:
  "actualPower (generatePowerCurveData 1 numPoints now (constantDraws r) k ! 8) =
     (let a = min (2000 / 729 * (95 / 100 + r * (3 / 100))) (2000 / 729 * (105 / 100) * (98 / 100))
      in if a \<noteq> 0 then Some (round1 a) else None)"
proof -
  have "8 < length windSpeeds" using windSpeeds_0_8 by blast
  from generatePowerCurveData_nth_point [OF this] obtain k' where
    "generatePowerCurveData 1 numPoints now (constantDraws r) k ! 8 =
       fst (powerCurvePoint 1 ((1::int) = 6) numPoints now (constantDraws r) k' (windSpeeds ! 8))" by blast
  then show ?thesis using windSpeeds_0_8 nominal_ramp_start [of numPoints now r k'] by simp
qed

lemma ramp_values:
  "actualPower (generatePowerCurveData 1 200 0 (constantDraws 0) 0 ! 8) = Some (26/10)"
  "actualPower (generatePowerCurveData 1 200 0 (constantDraws (99/100)) 0 ! 8) = Some (27/10)"
  unfolding generatePowerCurveData_ramp_start by (simp_all add: Let_def round1_def jsRound_def)

text \<open>
  C9, as the code has it. Two runs of \<open>generatePowerCurveData\<close> for the same unit,
  whatever their draws, clock readings and point hints, return sequences of the same
  length with the same \<open>windSpeed\<close>, \<open>minPower\<close>, \<open>maxPower\<close> and \<open>expectedPower\<close>
  at every position. The two other fields can differ between the runs: \<open>actualPower\<close>
  with the draws (2.6 against 2.7 at wind speed 4 for the draws 0 and 0.99), and
  \<open>timestamp\<close> with the clock reading.
\<close>

theorem generatePowerCurveData_fields_repeat:
  "length (generatePowerCurveData unitId numPoints now rnd k) =
     length (generatePowerCurveData unitId numPoints' now' rnd' k') \<and>
   map windSpeed (generatePowerCurveData unitId numPoints now rnd k) =
     map windSpeed (generatePowerCurveData unitId numPoints' now' rnd' k') \<and>
   map minPower (generatePowerCurveData unitId numPoints now rnd k) =
     map minPower (generatePowerCurveData unitId numPoints' now' rnd' k') \<and>
   map maxPower (generatePowerCurveData unitId numPoints now rnd k) =
     map maxPower (generatePowerCurveData unitId numPoints' now' rnd' k') \<and>
   map expectedPower (generatePowerCurveData unitId numPoints now rnd k) =
     map expectedPower (generatePowerCurveData unitId numPoints' now' rnd' k') \<and>
   actualPower (generatePowerCurveData 1 200 0 (constantDraws 0) 0 ! 8) \<noteq>
     actualPower (generatePowerCurveData 1 200 0 (constantDraws (99/100)) 0 ! 8) \<and>
   timestamp (generatePowerCurveData unitId 200 0 rnd k ! 0) \<noteq>
     timestamp (generatePowerCurveData unitId 200 1000 rnd' k' ! 0)"
  unfolding ramp_values generatePowerCurveData_first_timestamp
  by (simp add: generatePowerCurveData_def powerCurveLoop_map)

text \<open>
  The clause of the claim that only \<open>actualPower\<close> may differ fails: two runs for unit 1
  with the same draws and the same point hint 200, at the clock readings 0 and 5000,
  give their first samples the timestamps \<open>-60000000\<close> and \<open>-59995000\<close>.
\<close>

theorem generatePowerCurveData_fields_repeat_counterexample:
  "timestamp (generatePowerCurveData 1 200 0 (constantDraws (1/2)) 0 ! 0) = - 60000000 \<and>
   timestamp (generatePowerCurveData 1 200 5000 (constantDraws (1/2)) 0 ! 0) = - 59995000 \<and>
   timestamp (generatePowerCurveData 1 200 0 (constantDraws (1/2)) 0 ! 0) \<noteq>
     timestamp (generatePowerCurveData 1 200 5000 (constantDraws (1/2)) 0 ! 0)"
  unfolding generatePowerCurveData_first_timestamp by simp

section \<open>Properties of the time-series factor simulator\<close>

lemma round1_nonneg: "0 \<le> x \<Longrightarrow> 0 \<le> round1 x"
  by (simp add: round1_def jsRound_def)

lemma round1_le_100: "x \<le> 100 \<Longrightarrow> round1 x \<le> 100"
  using round1_mono [of x 100] by (simp add: round1_def jsRound_def)

lemma round1_eq_0_iff: "round1 x = 0 \<longleftrightarrow> - (1 / 20) \<le> x \<and> x < 1 / 20"
proof -
  have "round1 x = 0 \<longleftrightarrow> \<lfloor>x * 10 + 1 / 2\<rfloor> = 0"
    by (simp add: round1_def jsRound_def)
  also have "\<dots> \<longleftrightarrow> 0 \<le> x * 10 + 1 / 2 \<and> x * 10 + 1 / 2 < 1"
    by (simp add: floor_eq_iff)
  also have "\<dots> \<longleftrightarrow> - (1 / 20) \<le> x \<and> x < 1 / 20"
    by auto
  finally show ?thesis .
qed

lemma rangeDeviationScore_bounds:
  "rmin nr < rmax nr \<Longrightarrow> 0 \<le> rangeDeviationScore d nr \<and> rangeDeviationScore d nr \<le> 100"
  by (simp add: rangeDeviationScore_def Let_def)

lemma length_sliceLast20: "length (sliceLast20 xs) \<le> 20"
  by (simp add: sliceLast20_def)

lemma last_sliceLast20: "last (sliceLast20 (xs @ [x])) = x"
  by (simp add: sliceLast20_def)

lemma sliceLast20_snoc_nonempty: "sliceLast20 (xs @ [x]) \<noteq> []"
  by (simp add: sliceLast20_def)

lemma round1_of_int [simp]: "round1 (of_int m) = of_int m"
proof -
  have "jsRound (of_int m * 10) = jsRound (of_int (m * 10))" by simp
  also have "\<dots> = of_int (m * 10)" by (rule jsRound_of_int)
  finally show ?thesis by (simp add: round1_def)
qed

lemma round1_between:
  assumes "of_int a \<le> x" "x \<le> of_int b"
  shows "of_int a \<le> round1 x \<and> round1 x \<le> of_int b"
  using round1_mono [OF assms(1)] round1_mono [OF assms(2)] by (simp only: round1_of_int)

lemma nextFactor_fields:
  "fid (fst (nextFactor c t rnd k f)) = fid f"
  "normalRange (fst (nextFactor c t rnd k f)) = normalRange f"
  "fvalue (fst (nextFactor c t rnd k f)) = round1 (fst (nextValue c f rnd k))"
  "deviation (fst (nextFactor c t rnd k f)) =
     round1 (rangeDeviation (fst (nextValue c f rnd k)) (normalRange f))"
  "deviationScore (fst (nextFactor c t rnd k f)) =
     round1 (rangeDeviationScore (rangeDeviation (fst (nextValue c f rnd k)) (normalRange f)) (normalRange f))"
  "history (fst (nextFactor c t rnd k f)) =
     sliceLast20 (history f @ [\<lparr>htime = t, hvalue = fst (nextValue c f rnd k)\<rparr>])"
  by (simp_all add: nextFactor_def split_def Let_def)

lemma initializeCorrelationFactors_shape:
  "map (\<lambda>f. (fid f, normalRange f)) (fst (initializeCorrelationFactors unitId now rnd k)) =
   [(''pitch'', \<lparr>rmin = 0, rmax = 5\<rparr>), (''rotor'', \<lparr>rmin = 14, rmax = 18\<rparr>),
    (''generator'', \<lparr>rmin = 65, rmax = 75\<rparr>), (''windSpeed'', \<lparr>rmin = 8, rmax = 14\<rparr>)]"
  by (simp add: initializeCorrelationFactors_def factorTable_def split_def Let_def)

lemma length_initializeCorrelationFactors:
  "length (fst (initializeCorrelationFactors unitId now rnd k)) = 4"
  using arg_cong [OF initializeCorrelationFactors_shape, of length unitId now rnd k] by simp

lemma initializeCorrelationFactors_nth:
  "fid (fst (initializeCorrelationFactors unitId now rnd k) ! 0) = ''pitch''"
  "normalRange (fst (initializeCorrelationFactors unitId now rnd k) ! 0) = \<lparr>rmin = 0, rmax = 5\<rparr>"
  "fid (fst (initializeCorrelationFactors unitId now rnd k) ! Suc 0) = ''rotor''"
  "normalRange (fst (initializeCorrelationFactors unitId now rnd k) ! Suc 0) = \<lparr>rmin = 14, rmax = 18\<rparr>"
  "fid (fst (initializeCorrelationFactors unitId now rnd k) ! 2) = ''generator''"
  "normalRange (fst (initializeCorrelationFactors unitId now rnd k) ! 2) = \<lparr>rmin = 65, rmax = 75\<rparr>"
  "fid (fst (initializeCorrelationFactors unitId now rnd k) ! 3) = ''windSpeed''"
  "normalRange (fst (initializeCorrelationFactors unitId now rnd k) ! 3) = \<lparr>rmin = 8, rmax = 14\<rparr>"
  by (simp_all add: initializeCorrelationFactors_def factorTable_def split_def Let_def)

lemma nextValue_constantDraws:
  "fst (nextValue c f (constantDraws r) k) = fst (nextValue c f (constantDraws r) 0)"
  by (simp add: nextValue_def constantDraws_def Let_def)

lemma nextFactor_constantDraws:
  "fst (nextFactor c t (constantDraws r) k f) = fst (nextFactor c t (constantDraws r) 0 f)"
  using nextValue_constantDraws [of c f r k] by (simp add: nextFactor_def split_def Let_def)

lemma nextLoop_constantDraws:
  "fst (nextLoop c t (constantDraws r) k fs) = map (\<lambda>f. fst (nextFactor c t (constantDraws r) 0 f)) fs"
proof (induction fs arbitrary: k)
  case Nil
  show ?case by simp
next
  case (Cons f fs)
  show ?case using nextFactor_constantDraws [of c t r k f] Cons.IH by (simp add: split_def Let_def)
qed

lemma length_nextLoop: "length (fst (nextLoop c t rnd k fs)) = length fs"
  by (induction fs arbitrary: k) (simp_all add: split_def Let_def)

lemma list4: "length xs = 4 \<Longrightarrow> xs = [xs ! 0, xs ! Suc 0, xs ! 2, xs ! 3]"
  by (auto simp: eval_nat_numeral length_Suc_conv)

lemma nextLoop_mem:
  "f' \<in> set (fst (nextLoop c t rnd k fs)) \<Longrightarrow>
   \<exists>f\<in>set fs. \<exists>k'. f' = fst (nextFactor c t rnd k' f)"
  by (induction fs arbitrary: k) (auto simp: split_def Let_def)

lemma nextLoop_nth_constantDraws:
  "i < length fs \<Longrightarrow>
   fst (nextLoop c t (constantDraws r) k fs) ! i = fst (nextFactor c t (constantDraws r) 0 (fs ! i))"
  by (simp add: nextLoop_constantDraws)

lemma generateNextDataPoint_initial_nth:
  assumes "i < 4"
  shows "i < length (fst (generateNextDataPoint u t now (constantDraws r) k
            (fst (initializeCorrelationFactors u' now' rnd' k'))))"
    and "fst (generateNextDataPoint u t now (constantDraws r) k
            (fst (initializeCorrelationFactors u' now' rnd' k'))) ! i =
         fst (nextFactor (u = 6) now (constantDraws r) 0
            (fst (initializeCorrelationFactors u' now' rnd' k') ! i))"
  using assms
  by (simp_all add: generateNextDataPoint_def length_nextLoop length_initializeCorrelationFactors
      nextLoop_nth_constantDraws)

lemma critical_tick_scores:
  "map deviationScore
     (fst (generateNextDataPoint 6 0 0 (constantDraws (1/2)) 0
        (fst (initializeCorrelationFactors 6 0 (constantDraws (1/2)) 0)))) = [100, 25, 100, 83/10]"
proof -
  let ?F = "fst (initializeCorrelationFactors 6 0 (constantDraws (1/2)) 0)"
  let ?g = "\<lambda>f. deviationScore (fst (nextFactor True 0 (constantDraws (1/2)) 0 f))"
  have F: "?F = [?F ! 0, ?F ! Suc 0, ?F ! 2, ?F ! 3]"
    by (rule list4) (rule length_initializeCorrelationFactors)
  have s: "?g (?F ! 0) = 100" "?g (?F ! Suc 0) = 25" "?g (?F ! 2) = 100" "?g (?F ! 3) = 83/10"
    by (simp_all add: nextFactor_fields nextValue_def initializeCorrelationFactors_nth
        rangeDeviation_def rangeDeviationScore_def round1_def jsRound_def constantDraws_def Let_def)
  have "map deviationScore (fst (generateNextDataPoint 6 0 0 (constantDraws (1/2)) 0 ?F)) = map ?g ?F"
    unfolding generateNextDataPoint_def Let_def nextLoop_constantDraws map_map comp_def by simp
  also have "\<dots> = map ?g [?F ! 0, ?F ! Suc 0, ?F ! 2, ?F ! 3]"
    using F by (rule arg_cong)
  also have "\<dots> = [100, 25, 100, 83/10]"
    unfolding list.map s ..
  finally show ?thesis .
qed

lemma sortFactorsByDeviation_sorted:
  "sorted_wrt (\<lambda>a b. deviationScore a \<ge> deviationScore b) (sortFactorsByDeviation fs)"
proof -
  have "sorted (map (\<lambda>f. - deviationScore f) (sortFactorsByDeviation fs))"
    unfolding sortFactorsByDeviation_def by (rule sorted_sort_key)
  then show ?thesis by (simp add: sorted_wrt_map)
qed

lemma mset_sortFactorsByDeviation: "mset (sortFactorsByDeviation fs) = mset fs"
  by (simp add: sortFactorsByDeviation_def)

lemma fst_tickUpdate:
  "fst (tickUpdate unitId currentTime now rnd k fs) =
   sortFactorsByDeviation (fst (generateNextDataPoint unitId currentTime now rnd k fs))"
  by (simp add: tickUpdate_def split_def Let_def)

lemma nextLoop_positions:
  "list_all2 (\<lambda>f' f. \<exists>k'. f' = fst (nextFactor c t rnd k' f)) (fst (nextLoop c t rnd k fs)) fs"
  by (induction fs arbitrary: k) (auto simp: split_def Let_def)

lemma generateNextDataPoint_keeps_order:
  "list_all2 (\<lambda>f' f. fid f' = fid f \<and> fname f' = fname f \<and> funit f' = funit f \<and>
                      normalRange f' = normalRange f \<and>
                      (\<exists>p. history f' = sliceLast20 (history f @ [p])))
     (fst (generateNextDataPoint unitId currentTime now rnd k fs)) fs"
proof -
  have "list_all2 (\<lambda>f' f. \<exists>k'. f' = fst (nextFactor (unitId = 6) now rnd k' f))
      (fst (generateNextDataPoint unitId currentTime now rnd k fs)) fs"
    unfolding generateNextDataPoint_def Let_def by (rule nextLoop_positions)
  then show ?thesis
    by (rule list_all2_mono) (auto simp: nextFactor_def split_def Let_def)
qed

lemma configuredFactor_cases:
  assumes "configuredFactor f"
  obtains "fid f = ''pitch''" "normalRange f = \<lparr>rmin = 0, rmax = 5\<rparr>"
  | "fid f = ''rotor''" "normalRange f = \<lparr>rmin = 14, rmax = 18\<rparr>"
  | "fid f = ''generator''" "normalRange f = \<lparr>rmin = 65, rmax = 75\<rparr>"
  | "fid f = ''windSpeed''" "normalRange f = \<lparr>rmin = 8, rmax = 14\<rparr>"
  using assms by (auto simp: configuredFactor_def factorTable_def)

lemma nextValue_nominal_in_range:
  assumes "0 \<le> r" "r < 1" "rnd k = r" "configuredFactor f"
  shows "\<exists>a b :: int. rmin (normalRange f) = of_int a \<and> rmax (normalRange f) = of_int b \<and>
         of_int a \<le> fst (nextValue False f rnd k) \<and> fst (nextValue False f rnd k) \<le> of_int b"
  using assms(4)
proof (cases rule: configuredFactor_cases)
  case 1
  have "rmin (normalRange f) = of_int 0 \<and> rmax (normalRange f) = of_int 5 \<and>
        of_int 0 \<le> fst (nextValue False f rnd k) \<and> fst (nextValue False f rnd k) \<le> of_int 5"
    using 1 assms(1-3) by (simp add: nextValue_def)
  then show ?thesis by blast
next
  case 2
  have "rmin (normalRange f) = of_int 14 \<and> rmax (normalRange f) = of_int 18 \<and>
        of_int 14 \<le> fst (nextValue False f rnd k) \<and> fst (nextValue False f rnd k) \<le> of_int 18"
    using 2 assms(1-3) by (simp add: nextValue_def)
  then show ?thesis by blast
next
  case 3
  have "rmin (normalRange f) = of_int 65 \<and> rmax (normalRange f) = of_int 75 \<and>
        of_int 65 \<le> fst (nextValue False f rnd k) \<and> fst (nextValue False f rnd k) \<le> of_int 75"
    using 3 assms(1-3) by (simp add: nextValue_def)
  then show ?thesis by blast
next
  case 4
  have "rmin (normalRange f) = of_int 8 \<and> rmax (normalRange f) = of_int 14 \<and>
        of_int 8 \<le> fst (nextValue False f rnd k) \<and> fst (nextValue False f rnd k) \<le> of_int 14"
    using 4 assms(1-3) by (simp add: nextValue_def)
  then show ?thesis by blast
qed

lemma initializeCorrelationFactors_configured:
  "f \<in> set (fst (initializeCorrelationFactors unitId now rnd k)) \<Longrightarrow> configuredFactor f"
proof -
  assume "f \<in> set (fst (initializeCorrelationFactors unitId now rnd k))"
  then have "(fid f, normalRange f) \<in>
      set (map (\<lambda>f. (fid f, normalRange f)) (fst (initializeCorrelationFactors unitId now rnd k)))"
    by (simp add: image_iff) blast
  then show ?thesis
    unfolding initializeCorrelationFactors_shape by (simp add: configuredFactor_def factorTable_def)
qed

lemma generateNextDataPoint_configured:
  assumes "\<forall>f\<in>set fs. configuredFactor f"
    and "f' \<in> set (fst (generateNextDataPoint unitId currentTime now rnd k fs))"
  shows "configuredFactor f'"
proof -
  from assms(2) obtain f k' where "f \<in> set fs" and "f' = fst (nextFactor (unitId = 6) now rnd k' f)"
    unfolding generateNextDataPoint_def Let_def using nextLoop_mem by blast
  with assms(1) show ?thesis by (simp add: configuredFactor_def nextFactor_fields)
qed

lemma sortFactorsByDeviation_configured:
  "\<forall>f\<in>set fs. configuredFactor f \<Longrightarrow> \<forall>f\<in>set (sortFactorsByDeviation fs). configuredFactor f"
  by (simp add: sortFactorsByDeviation_def)

lemma configuredFactor_range: "configuredFactor f \<Longrightarrow> rmin (normalRange f) < rmax (normalRange f)"
  by (erule configuredFactor_cases) simp_all

text \<open>
  C2, as the code has it. \<open>generateNextDataPoint\<close> returns the updated factors in the
  order of its input: position by position the id, name, unit and normal range are
  those of the input factor, and the history is the input's with one point appended and
  cut to the last 20. It does not sort; the interval handler of the page does, with
  \<open>sortFactorsByDeviation\<close>. For every unit and every input list whose normal ranges
  have \<open>rmin < rmax\<close> (so that every score is a number), the sequence that the handler
  stores is sorted by falling \<open>deviationScore\<close> and has the same factors as the result of
  \<open>generateNextDataPoint\<close>.
\<close>

theorem tickUpdate_sorted:
  assumes "\<forall>f\<in>set fs. rmin (normalRange f) < rmax (normalRange f)"
  shows "list_all2 (\<lambda>f' f. fid f' = fid f \<and> fname f' = fname f \<and> funit f' = funit f \<and>
                      normalRange f' = normalRange f \<and>
                      (\<exists>p. history f' = sliceLast20 (history f @ [p])))
           (fst (generateNextDataPoint unitId currentTime now rnd k fs)) fs \<and>
         sorted_wrt (\<lambda>a b. deviationScore a \<ge> deviationScore b)
           (fst (tickUpdate unitId currentTime now rnd k fs)) \<and>
         mset (fst (tickUpdate unitId currentTime now rnd k fs)) =
           mset (fst (generateNextDataPoint unitId currentTime now rnd k fs))"
  by (simp add: generateNextDataPoint_keeps_order fst_tickUpdate sortFactorsByDeviation_sorted
      mset_sortFactorsByDeviation)

theorem tickUpdate_sorted_witness:
  "list_all (\<lambda>f. rmin (normalRange f) < rmax (normalRange f))
     (fst (initializeCorrelationFactors 6 0 (constantDraws (1/2)) 0)) \<and>
   map fid (fst (generateNextDataPoint 6 0 0 (constantDraws (1/2)) 0
     (fst (initializeCorrelationFactors 6 0 (constantDraws (1/2)) 0)))) =
     [''pitch'', ''rotor'', ''generator'', ''windSpeed''] \<and>
   sorted_wrt (\<lambda>a b. deviationScore a \<ge> deviationScore b)
     (fst (tickUpdate 6 0 0 (constantDraws (1/2)) 0
        (fst (initializeCorrelationFactors 6 0 (constantDraws (1/2)) 0))))"
proof -
  let ?F = "fst (initializeCorrelationFactors 6 0 (constantDraws (1/2)) 0)"
  have h: "\<forall>f\<in>set ?F. rmin (normalRange f) < rmax (normalRange f)"
    using initializeCorrelationFactors_configured configuredFactor_range by blast
  then have l: "list_all (\<lambda>f. rmin (normalRange f) < rmax (normalRange f)) ?F"
    by (simp only: list_all_iff)
  have ids: "map fid ?F = [''pitch'', ''rotor'', ''generator'', ''windSpeed'']"
    using arg_cong [OF initializeCorrelationFactors_shape, of "map fst" 6 0 "constantDraws (1/2)" 0]
    by (simp add: comp_def)
  from tickUpdate_sorted [OF h, of 6 0 0 "constantDraws (1/2)" 0]
  have keep: "list_all2 (\<lambda>f' f. fid f' = fid f)
      (fst (generateNextDataPoint 6 0 0 (constantDraws (1/2)) 0 ?F)) ?F"
    and srt: "sorted_wrt (\<lambda>a b. deviationScore a \<ge> deviationScore b)
      (fst (tickUpdate 6 0 0 (constantDraws (1/2)) 0 ?F))"
    by (auto elim: list_all2_mono)
  from keep have "map fid (fst (generateNextDataPoint 6 0 0 (constantDraws (1/2)) 0 ?F)) = map fid ?F"
    by (simp add: list_all2_conv_all_nth list_eq_iff_nth_eq)
  with ids l srt show ?thesis by simp
qed

text \<open>
  The sequence returned by \<open>generateNextDataPoint\<close> itself need not be sorted: for the
  critical unit 6, from its initial factors and with every draw 0.5, the scores come
  out as 100, 25, 100, 8.3 in the order pitch, rotor, generator, wind speed.
\<close>

theorem generateNextDataPoint_sorted_counterexample:
  "\<not> sorted_wrt (\<lambda>a b. deviationScore a \<ge> deviationScore b)
     (fst (generateNextDataPoint 6 0 0 (constantDraws (1/2)) 0
        (fst (initializeCorrelationFactors 6 0 (constantDraws (1/2)) 0))))"
proof -
  let ?R = "fst (generateNextDataPoint 6 0 0 (constantDraws (1/2)) 0
        (fst (initializeCorrelationFactors 6 0 (constantDraws (1/2)) 0)))"
  have "sorted_wrt (\<lambda>a b. deviationScore a \<ge> deviationScore b) ?R =
        sorted_wrt (\<lambda>a b. a \<ge> b) (map deviationScore ?R)"
    by (simp add: sorted_wrt_map)
  also have "\<dots> = sorted_wrt (\<lambda>a b. a \<ge> b) [100, 25, 100, 83/10 :: real]"
    by (simp only: critical_tick_scores)
  also have "\<dots> = False" by simp
  finally show ?thesis by simp
qed

lemma round1_error: "\<bar>round1 x - x\<bar> \<le> 1 / 20"
proof -
  define n where "n = \<lfloor>x * 10 + 1 / 2\<rfloor>"
  have "of_int n \<le> x * 10 + 1 / 2" and "x * 10 + 1 / 2 < of_int n + 1"
    unfolding n_def by linarith+
  moreover have "round1 x = of_int n / 10"
    by (simp add: round1_def jsRound_def n_def)
  ultimately show ?thesis by linarith
qed

lemma round1_tenth: "\<exists>m::int. round1 x = of_int m / 10"
  by (auto simp: round1_def jsRound_def)

text \<open>
  C3, as the code has it. For every factor \<open>f'\<close> returned by \<open>generateNextDataPoint\<close>
  whose normal range has \<open>rmin < rmax\<close> and a width that is a finite double (at most
  \<open>10\<^sup>3\<^sup>0\<^sup>8\<close>): the history has at most 20 points, the last of them holding the
  unrounded new value \<open>v\<close>; \<open>deviationScore\<close> is a number of one decimal in
  \<open>[0, 100]\<close>, the rounding of \<open>min 100 (\<bar>dev\<bar> / (rmax - rmin) * 100)\<close>, where
  \<open>dev\<close> is the distance of \<open>v\<close> outside the range (0 inside): it is within 0.05 of
  that score, with the margin \<open>10\<^sup>-\<^sup>9\<close> for the double arithmetic of the score; it is
  0 when the score is below 0.05 by that margin, and \<open>deviation\<close> and \<open>deviationScore\<close>
  are both 0 whenever \<open>v\<close> lies in the range. The returned \<open>value\<close> is not what
  decides: see the counterexample.
\<close>

theorem generateNextDataPoint_factor_invariant:
  assumes mem: "f' \<in> set (fst (generateNextDataPoint unitId currentTime now rnd k fs))"
    and range: "rmin (normalRange f') < rmax (normalRange f')"
    and width: "rmax (normalRange f') - rmin (normalRange f') \<le> 10 ^ 308"
  shows "length (history f') \<le> 20 \<and> history f' \<noteq> [] \<and>
         0 \<le> deviationScore f' \<and> deviationScore f' \<le> 100 \<and>
         (\<exists>m::int. deviationScore f' = of_int m / 10) \<and>
         (let v = hvalue (last (history f'));
              dev = rangeDeviation v (normalRange f');
              score = min 100 (\<bar>dev\<bar> / (rmax (normalRange f') - rmin (normalRange f')) * 100)
          in \<bar>deviationScore f' - score\<bar> \<le> 1 / 20 + 1 / 10 ^ 9 \<and>
             (score < 1 / 20 - 1 / 10 ^ 9 \<longrightarrow> deviationScore f' = 0) \<and>
             (rmin (normalRange f') \<le> v \<and> v \<le> rmax (normalRange f') \<longrightarrow>
                deviation f' = 0 \<and> deviationScore f' = 0))"
proof -
  from mem obtain f k' where f': "f' = fst (nextFactor (unitId = 6) now rnd k' f)"
    unfolding generateNextDataPoint_def Let_def using nextLoop_mem by blast
  define v where "v = fst (nextValue (unitId = 6) f rnd k')"
  define nr where "nr = normalRange f"
  define dev where "dev = rangeDeviation v nr"
  define score where "score = min 100 (\<bar>dev\<bar> / (rmax nr - rmin nr) * 100)"
  have nr: "normalRange f' = nr" and r: "rmin nr < rmax nr"
    using range by (simp_all add: f' nr_def nextFactor_fields)
  have hist: "history f' = sliceLast20 (history f @ [\<lparr>htime = now, hvalue = v\<rparr>])"
    by (simp add: f' v_def nextFactor_fields)
  have last: "hvalue (last (history f')) = v"
    unfolding hist last_sliceLast20 by simp
  have sc: "rangeDeviationScore dev nr = score"
    by (simp add: rangeDeviationScore_def score_def Let_def)
  have ds: "deviationScore f' = round1 score"
    unfolding sc [symmetric] by (simp add: f' v_def nr_def dev_def nextFactor_fields)
  have dv: "deviation f' = round1 dev"
    by (simp add: f' v_def nr_def dev_def nextFactor_fields)
  have b: "0 \<le> score" "score \<le> 100"
    using rangeDeviationScore_bounds [OF r, of dev] unfolding sc by simp_all
  have 1: "length (history f') \<le> 20" "history f' \<noteq> []"
    unfolding hist by (simp_all add: length_sliceLast20 sliceLast20_snoc_nonempty)
  have 2: "0 \<le> deviationScore f'" "deviationScore f' \<le> 100"
    unfolding ds using b by (simp_all add: round1_nonneg round1_le_100)
  have 3: "\<exists>m::int. deviationScore f' = of_int m / 10"
    unfolding ds by (rule round1_tenth)
  have 4: "\<bar>deviationScore f' - score\<bar> \<le> 1 / 20 + 1 / 10 ^ 9"
    unfolding ds using round1_error [of score] by simp
  have 5: "score < 1 / 20 - 1 / 10 ^ 9 \<longrightarrow> deviationScore f' = 0"
    unfolding ds round1_eq_0_iff using b by simp
  have 6: "rmin nr \<le> v \<and> v \<le> rmax nr \<longrightarrow> deviation f' = 0 \<and> deviationScore f' = 0"
    unfolding ds dv score_def dev_def
    by (auto simp: rangeDeviation_def round1_def jsRound_def)
  show ?thesis
    unfolding Let_def last nr dev_def [symmetric] score_def [symmetric]
    using 1 2 3 4 5 6 by simp
qed

theorem generateNextDataPoint_factor_invariant_witness:
  "fst (generateNextDataPoint 1 0 0 (constantDraws (1/2)) 0
          (fst (initializeCorrelationFactors 1 0 (constantDraws (1/2)) 0))) ! 3
     \<in> set (fst (generateNextDataPoint 1 0 0 (constantDraws (1/2)) 0
          (fst (initializeCorrelationFactors 1 0 (constantDraws (1/2)) 0)))) \<and>
   rmin (normalRange (fst (generateNextDataPoint 1 0 0 (constantDraws (1/2)) 0
          (fst (initializeCorrelationFactors 1 0 (constantDraws (1/2)) 0))) ! 3))
     < rmax (normalRange (fst (generateNextDataPoint 1 0 0 (constantDraws (1/2)) 0
          (fst (initializeCorrelationFactors 1 0 (constantDraws (1/2)) 0))) ! 3)) \<and>
   rmax (normalRange (fst (generateNextDataPoint 1 0 0 (constantDraws (1/2)) 0
          (fst (initializeCorrelationFactors 1 0 (constantDraws (1/2)) 0))) ! 3))
     - rmin (normalRange (fst (generateNextDataPoint 1 0 0 (constantDraws (1/2)) 0
          (fst (initializeCorrelationFactors 1 0 (constantDraws (1/2)) 0))) ! 3)) \<le> 10 ^ 308 \<and>
   rmin (normalRange (fst (generateNextDataPoint 1 0 0 (constantDraws (1/2)) 0
          (fst (initializeCorrelationFactors 1 0 (constantDraws (1/2)) 0))) ! 3))
     \<le> hvalue (last (history (fst (generateNextDataPoint 1 0 0 (constantDraws (1/2)) 0
          (fst (initializeCorrelationFactors 1 0 (constantDraws (1/2)) 0))) ! 3))) \<and>
   hvalue (last (history (fst (generateNextDataPoint 1 0 0 (constantDraws (1/2)) 0
          (fst (initializeCorrelationFactors 1 0 (constantDraws (1/2)) 0))) ! 3)))
     \<le> rmax (normalRange (fst (generateNextDataPoint 1 0 0 (constantDraws (1/2)) 0
          (fst (initializeCorrelationFactors 1 0 (constantDraws (1/2)) 0))) ! 3)) \<and>
   length (history (fst (generateNextDataPoint 1 0 0 (constantDraws (1/2)) 0
          (fst (initializeCorrelationFactors 1 0 (constantDraws (1/2)) 0))) ! 3)) \<le> 20 \<and>
   deviationScore (fst (generateNextDataPoint 1 0 0 (constantDraws (1/2)) 0
          (fst (initializeCorrelationFactors 1 0 (constantDraws (1/2)) 0))) ! 3) = 0"
proof -
  let ?F = "fst (initializeCorrelationFactors 1 0 (constantDraws (1/2)) 0)"
  let ?R = "fst (generateNextDataPoint 1 0 0 (constantDraws (1/2)) 0 ?F)"
  have i: "(3::nat) < 4" by simp
  have mem: "?R ! 3 \<in> set ?R"
    using generateNextDataPoint_initial_nth(1) [OF i] by (rule nth_mem)
  have nr: "normalRange (?R ! 3) = \<lparr>rmin = 8, rmax = 14\<rparr>"
    unfolding generateNextDataPoint_initial_nth(2) [OF i]
    by (simp add: nextFactor_fields initializeCorrelationFactors_nth)
  have range: "rmin (normalRange (?R ! 3)) < rmax (normalRange (?R ! 3))"
    unfolding nr by simp
  have width: "rmax (normalRange (?R ! 3)) - rmin (normalRange (?R ! 3)) \<le> 10 ^ 308"
  proof -
    have "(6::real) \<le> 10 ^ 1" by simp
    also have "\<dots> \<le> 10 ^ 308" by (rule power_increasing) simp_all
    finally show ?thesis unfolding nr by simp
  qed
  have inside: "rmin (normalRange (?R ! 3)) \<le> hvalue (last (history (?R ! 3))) \<and>
      hvalue (last (history (?R ! 3))) \<le> rmax (normalRange (?R ! 3))"
    unfolding generateNextDataPoint_initial_nth(2) [OF i]
    by (simp add: nextFactor_fields nextValue_def initializeCorrelationFactors_nth last_sliceLast20
        constantDraws_def)
  show ?thesis
    using mem range width inside generateNextDataPoint_factor_invariant [OF mem range width]
    unfolding Let_def by blast
qed

text \<open>
  On the returned fields the claim fails. For the critical unit 6, from its initial
  factors and with every draw 0.66, the new wind speed is 7.98: the returned value 8.0
  lies in the normal range \<open>[8, 14]\<close>, the returned deviation is 0, and the returned score
  is 0.3, neither 0 nor the unrounded score 1/3.
\<close>

theorem generateNextDataPoint_factor_invariant_counterexample:
  "hvalue (last (history (fst (generateNextDataPoint 6 0 0 (constantDraws (33/50)) 0
      (fst (initializeCorrelationFactors 6 0 (constantDraws (33/50)) 0))) ! 3))) = 399/50 \<and>
   normalRange (fst (generateNextDataPoint 6 0 0 (constantDraws (33/50)) 0
      (fst (initializeCorrelationFactors 6 0 (constantDraws (33/50)) 0))) ! 3) = \<lparr>rmin = 8, rmax = 14\<rparr> \<and>
   fvalue (fst (generateNextDataPoint 6 0 0 (constantDraws (33/50)) 0
      (fst (initializeCorrelationFactors 6 0 (constantDraws (33/50)) 0))) ! 3) = 8 \<and>
   deviation (fst (generateNextDataPoint 6 0 0 (constantDraws (33/50)) 0
      (fst (initializeCorrelationFactors 6 0 (constantDraws (33/50)) 0))) ! 3) = 0 \<and>
   deviationScore (fst (generateNextDataPoint 6 0 0 (constantDraws (33/50)) 0
      (fst (initializeCorrelationFactors 6 0 (constantDraws (33/50)) 0))) ! 3) = 3/10 \<and>
   min 100 (\<bar>rangeDeviation (399/50) \<lparr>rmin = 8, rmax = 14\<rparr>\<bar> / (14 - 8) * 100) = (1/3 :: real)"
proof -
  have i: "(3::nat) < 4" by simp
  show ?thesis
    unfolding generateNextDataPoint_initial_nth(2) [OF i]
    by (simp add: nextFactor_fields nextValue_def initializeCorrelationFactors_nth last_sliceLast20
        rangeDeviation_def rangeDeviationScore_def round1_def jsRound_def constantDraws_def Let_def)
qed

text \<open>
  C10, as the code has it. For every unit other than 6, every source of draws from
  \<open>[0, 1)\<close> and every input list of configured factors (id and normal range as in the
  table of \<open>initializeCorrelationFactors\<close>, which is what that function returns and what
  \<open>generateNextDataPoint\<close> and \<open>sortFactorsByDeviation\<close> keep), every factor returned
  by \<open>generateNextDataPoint\<close> has its new value, unrounded and rounded, inside its normal
  range, and \<open>deviation = 0\<close> and \<open>deviationScore = 0\<close>.
\<close>

theorem generateNextDataPoint_nominal_in_range:
  assumes draws: "validDraws rnd"
    and unit: "unitId \<noteq> 6"
    and conf: "\<forall>f\<in>set fs. configuredFactor f"
    and mem: "f' \<in> set (fst (generateNextDataPoint unitId currentTime now rnd k fs))"
  shows "rmin (normalRange f') \<le> hvalue (last (history f')) \<and>
         hvalue (last (history f')) \<le> rmax (normalRange f') \<and>
         rmin (normalRange f') \<le> fvalue f' \<and> fvalue f' \<le> rmax (normalRange f') \<and>
         deviation f' = 0 \<and> deviationScore f' = 0"
proof -
  from mem unit obtain f k' where f: "f \<in> set fs" and f': "f' = fst (nextFactor False now rnd k' f)"
    unfolding generateNextDataPoint_def Let_def using nextLoop_mem by fastforce
  define v where "v = fst (nextValue False f rnd k')"
  from draws have "0 \<le> rnd k'" "rnd k' < 1" by (simp_all add: validDraws_def)
  moreover from conf f have "configuredFactor f" by blast
  ultimately obtain a b :: int where ab: "rmin (normalRange f) = of_int a" "rmax (normalRange f) = of_int b"
    "of_int a \<le> v" "v \<le> of_int b"
    unfolding v_def using nextValue_nominal_in_range [of "rnd k'" rnd k' f] by blast
  have dev: "rangeDeviation v (normalRange f) = 0"
    using ab by (simp add: rangeDeviation_def)
  have last: "hvalue (last (history f')) = v"
    by (simp add: f' v_def nextFactor_fields last_sliceLast20)
  have val: "fvalue f' = round1 v" by (simp add: f' v_def nextFactor_fields)
  have "deviation f' = round1 (rangeDeviation v (normalRange f))"
    by (simp add: f' v_def nextFactor_fields)
  then have d0: "deviation f' = 0" unfolding dev by (simp add: round1_def jsRound_def)
  have "deviationScore f' = round1 (rangeDeviationScore (rangeDeviation v (normalRange f)) (normalRange f))"
    by (simp add: f' v_def nextFactor_fields)
  then have s0: "deviationScore f' = 0"
    unfolding dev by (simp add: rangeDeviationScore_def round1_def jsRound_def)
  have nr: "normalRange f' = normalRange f" by (simp add: f' nextFactor_fields)
  show ?thesis
    unfolding last val nr ab using ab(3,4) round1_between [OF ab(3,4)] d0 s0 by simp
qed

theorem generateNextDataPoint_nominal_in_range_witness:
  "validDraws (constantDraws (1/2)) \<and> (4::int) \<noteq> 6 \<and>
   list_all configuredFactor (fst (initializeCorrelationFactors 4 0 (constantDraws (1/2)) 0)) \<and>
   fst (generateNextDataPoint 4 0 0 (constantDraws (1/2)) 0
          (fst (initializeCorrelationFactors 4 0 (constantDraws (1/2)) 0))) ! 0
     \<in> set (fst (generateNextDataPoint 4 0 0 (constantDraws (1/2)) 0
          (fst (initializeCorrelationFactors 4 0 (constantDraws (1/2)) 0)))) \<and>
   deviation (fst (generateNextDataPoint 4 0 0 (constantDraws (1/2)) 0
          (fst (initializeCorrelationFactors 4 0 (constantDraws (1/2)) 0))) ! 0) = 0 \<and>
   deviationScore (fst (generateNextDataPoint 4 0 0 (constantDraws (1/2)) 0
          (fst (initializeCorrelationFactors 4 0 (constantDraws (1/2)) 0))) ! 0) = 0"
proof -
  let ?F = "fst (initializeCorrelationFactors 4 0 (constantDraws (1/2)) 0)"
  let ?R = "fst (generateNextDataPoint 4 0 0 (constantDraws (1/2)) 0 ?F)"
  have draws: "validDraws (constantDraws (1/2))"
    by (simp add: validDraws_def constantDraws_def)
  have unit: "(4::int) \<noteq> 6" by simp
  have conf: "\<forall>f\<in>set ?F. configuredFactor f"
    using initializeCorrelationFactors_configured by blast
  have i: "(0::nat) < 4" by simp
  have mem: "?R ! 0 \<in> set ?R"
    using generateNextDataPoint_initial_nth(1) [OF i] by (rule nth_mem)
  have "list_all configuredFactor ?F"
    using conf by (simp only: list_all_iff)
  then show ?thesis
    using draws mem generateNextDataPoint_nominal_in_range [OF draws unit conf mem] by simp
qed

text \<open>
  Without the configured range the claim fails: a pitch factor with the normal range
  \<open>[10, 20]\<close> gets, for the nominal unit 1 and the draw 0.5, the new value 3.5, the
  deviation 6.5 and the score 65.
\<close>

theorem generateNextDataPoint_nominal_in_range_counterexample:
  "fvalue (hd (fst (generateNextDataPoint 1 0 0 (constantDraws (1/2)) 0 [misconfiguredPitch]))) = 7/2 \<and>
   normalRange (hd (fst (generateNextDataPoint 1 0 0 (constantDraws (1/2)) 0 [misconfiguredPitch])))
     = \<lparr>rmin = 10, rmax = 20\<rparr> \<and>
   deviation (hd (fst (generateNextDataPoint 1 0 0 (constantDraws (1/2)) 0 [misconfiguredPitch]))) = 13/2 \<and>
   deviationScore (hd (fst (generateNextDataPoint 1 0 0 (constantDraws (1/2)) 0 [misconfiguredPitch]))) = 65"
  by (simp add: generateNextDataPoint_def split_def Let_def nextFactor_fields nextValue_def
      misconfiguredPitch_def rangeDeviation_def rangeDeviationScore_def round1_def jsRound_def
      constantDraws_def)

section \<open>Unit ids outside the registry\<close>

lemma computeActualPower_unit:
  assumes "unitId \<noteq> 4"
  shows "computeActualPower unitId c ws e lo hi rnd k = computeActualPower 1 c ws e lo hi rnd k"
proof -
  have h: "(unitId = 4) = ((1::int) = 4)" using assms by simp
  show ?thesis unfolding computeActualPower_def by (simp only: h)
qed

lemma powerCurvePoint_unit:
  assumes "unitId \<noteq> 4"
  shows "powerCurvePoint unitId c n now rnd k ws = powerCurvePoint 1 c n now rnd k ws"
  unfolding powerCurvePoint_def by (simp only: computeActualPower_unit [OF assms])

lemma powerCurveLoop_unit:
  assumes "unitId \<noteq> 4"
  shows "powerCurveLoop unitId c n now rnd k wss = powerCurveLoop 1 c n now rnd k wss"
proof (induction wss arbitrary: k)
  case Nil
  show ?case by simp
next
  case (Cons ws wss)
  show ?case using Cons.IH by (simp add: powerCurvePoint_unit [OF assms])
qed

lemma registry_ids: "map uid generateUnitsInfo = [1, 2, 3, 4, 5, 6]"
  by (simp add: generateUnitsInfo_def)

text \<open>
  C5, as the code has it. The generator functions have no error result and never look
  a unit id up in the registry: they only compare it with 6 (and, for the power curve
  and the distribution, with 4). For every unit id outside the registry each of
  \<open>generatePowerCurveData\<close>, \<open>initializeCorrelationFactors\<close>,
  \<open>generateNextDataPoint\<close> and \<open>generateDistributionData\<close> returns exactly what it
  returns for the nominal unit 1 on the same draws.
\<close>

theorem unregistered_unit_defaults_to_nominal:
  assumes "unitId \<notin> set (map uid generateUnitsInfo)"
  shows "generatePowerCurveData unitId numPoints now rnd k = generatePowerCurveData 1 numPoints now rnd k \<and>
         initializeCorrelationFactors unitId now rnd k = initializeCorrelationFactors 1 now rnd k \<and>
         generateNextDataPoint unitId currentTime now rnd k fs =
           generateNextDataPoint 1 currentTime now rnd k fs \<and>
         generateDistributionData f unitId rnd k = generateDistributionData f 1 rnd k"
proof -
  from assms have u: "unitId \<noteq> 4" "unitId \<noteq> 6"
    unfolding registry_ids by simp_all
  have "generatePowerCurveData unitId numPoints now rnd k = generatePowerCurveData 1 numPoints now rnd k"
    using u by (simp add: generatePowerCurveData_def powerCurveLoop_unit [OF u(1)])
  moreover have "initializeCorrelationFactors unitId now rnd k = initializeCorrelationFactors 1 now rnd k"
    using u by (simp add: initializeCorrelationFactors_def)
  moreover have "generateNextDataPoint unitId currentTime now rnd k fs =
           generateNextDataPoint 1 currentTime now rnd k fs"
    using u by (simp add: generateNextDataPoint_def)
  moreover have "generateDistributionData f unitId rnd k = generateDistributionData f 1 rnd k"
    using u by (simp add: generateDistributionData_def)
  ultimately show ?thesis by simp
qed

theorem unregistered_unit_defaults_to_nominal_witness:
  "(0::int) \<notin> set (map uid generateUnitsInfo) \<and>
   generatePowerCurveData 0 200 0 (constantDraws (1/2)) 0 =
     generatePowerCurveData 1 200 0 (constantDraws (1/2)) 0 \<and>
   initializeCorrelationFactors 0 0 (constantDraws (1/2)) 0 =
     initializeCorrelationFactors 1 0 (constantDraws (1/2)) 0 \<and>
   generateNextDataPoint 0 0 0 (constantDraws (1/2)) 0 [misconfiguredPitch] =
     generateNextDataPoint 1 0 0 (constantDraws (1/2)) 0 [misconfiguredPitch] \<and>
   generateDistributionData misconfiguredPitch 0 (constantDraws (1/2)) 0 =
     generateDistributionData misconfiguredPitch 1 (constantDraws (1/2)) 0"
proof -
  have h: "(0::int) \<notin> set (map uid generateUnitsInfo)"
    unfolding registry_ids by simp
  show ?thesis
    using h unregistered_unit_defaults_to_nominal [OF h, of 200 0 "constantDraws (1/2)" 0 0
        "[misconfiguredPitch]" misconfiguredPitch]
    by (simp only: simp_thms)
qed

lemma initial_values:
  "map fvalue (fst (initializeCorrelationFactors unitId now rnd k)) =
     (if unitId = 6 then [18, 9, 87, 6] else [3, 16, 72, 10])"
  "map deviationScore (fst (initializeCorrelationFactors unitId now rnd k)) =
     (if unitId = 6 then [100, 100, 100, 333/10] else [0, 0, 0, 0])"
  by (simp_all add: initializeCorrelationFactors_def factorTable_def split_def Let_def
      calculateInitialDeviation_def rangeDeviation_def rangeDeviationScore_def round1_def jsRound_def)

text \<open>
  The unit id 7 is not in the registry, and the functions give it no error signal:
  \<open>initializeCorrelationFactors\<close> returns the four factors with the nominal values
  3, 16, 72, 10 and scores 0, and \<open>generatePowerCurveData\<close> returns the full sweep.
\<close>

theorem unregistered_unit_counterexample:
  "(7::int) \<notin> set (map uid generateUnitsInfo) \<and>
   map fvalue (fst (initializeCorrelationFactors 7 0 (constantDraws (1/2)) 0)) = [3, 16, 72, 10] \<and>
   map deviationScore (fst (initializeCorrelationFactors 7 0 (constantDraws (1/2)) 0)) = [0, 0, 0, 0] \<and>
   length (generatePowerCurveData 7 200 0 (constantDraws (1/2)) 0) = length windSpeeds"
  unfolding registry_ids initial_values length_generatePowerCurveData by simp

section \<open>Properties of the distribution synthesizer\<close>







end
